theory Spec2Isabelle
  imports Complex_Main "HOL-Library.Product_Lexorder"
begin

section \<open>Values of the point-of-sale backend\<close>

text \<open>
  The model follows \<^verbatim>\<open>src/pos_backend_by_rk/run.py\<close>.

  A sheet cell is a string (the Sheets API returns every cell of a tab as formatted text), a
  tab is a list of rows, and a row is a list of cells whose trailing empty cells may be
  missing. A field of a request body is a JSON scalar: \<^verbatim>\<open>null\<close>, a boolean, an integer, a
  number that Python reads as a \<^verbatim>\<open>float\<close> (a fraction, an exponent, an infinity or a nan)
  or a string. The type \<open>'f\<close> stands for Python's \<^verbatim>\<open>float\<close>.
\<close>

datatype 'f json = JNull | JBool bool | JInt int | JNum 'f | JStr string

datatype error = HTTPException nat string | ValueError | TypeError | OverflowError

type_synonym row = "string list"
type_synonym table = "row list"
type_synonym dict = "(string \<times> string) list"
type_synonym 'f obj = "(string \<times> 'f json) list"
type_synonym date = "nat \<times> nat \<times> nat"

subsection \<open>The Python runtime\<close>

text \<open>
  What the code asks of Python's built-in numbers and dates is a parameter of the model, so
  that nothing proved below depends on the grammar of \<^verbatim>\<open>int\<close>, \<^verbatim>\<open>float\<close> or
  \<^verbatim>\<open>date.fromisoformat\<close>, which differs between Python versions, nor on how binary
  floating point rounds:

  \<^item> \<open>int_of_str\<close> is \<^verbatim>\<open>int(s)\<close> of a string and \<open>float_of_str\<close> is \<^verbatim>\<open>float(s)\<close> of a
    string; \<open>None\<close> is the \<^verbatim>\<open>ValueError\<close> they raise;
  \<^item> \<open>int_of_float\<close> is \<^verbatim>\<open>int(x)\<close> of a float: its integer part, \<^verbatim>\<open>OverflowError\<close> for an
    infinity, \<^verbatim>\<open>ValueError\<close> for a nan;
  \<^item> \<open>float_of_int\<close> is the conversion of an \<^verbatim>\<open>int\<close> operand that \<^verbatim>\<open>float * int\<close> and
    \<^verbatim>\<open>float - int\<close> begin with; \<open>None\<close> is the \<^verbatim>\<open>OverflowError\<close> of an integer beyond the
    range of a float;
  \<^item> \<open>float_zero\<close> is \<^verbatim>\<open>0.0\<close>, which is also \<^verbatim>\<open>float(0)\<close>; \<open>float_mul\<close>, \<open>float_add\<close> and
    \<open>float_sub\<close> are the rounded operations on two floats, which raise nothing;
  \<^item> \<open>float_truth\<close> is the truth value of a float and \<open>float_str\<close> is \<^verbatim>\<open>str(x)\<close>;
  \<^item> \<open>fromisoformat\<close> is \<^verbatim>\<open>datetime.date.fromisoformat\<close>; \<open>None\<close> is its \<^verbatim>\<open>ValueError\<close>.
\<close>

record 'f python =
  int_of_str :: "string \<Rightarrow> int option"
  int_of_float :: "'f \<Rightarrow> error + int"
  float_of_str :: "string \<Rightarrow> 'f option"
  float_of_int :: "int \<Rightarrow> 'f option"
  float_zero :: 'f
  float_mul :: "'f \<Rightarrow> 'f \<Rightarrow> 'f"
  float_add :: "'f \<Rightarrow> 'f \<Rightarrow> 'f"
  float_sub :: "'f \<Rightarrow> 'f \<Rightarrow> 'f"
  float_truth :: "'f \<Rightarrow> bool"
  float_str :: "'f \<Rightarrow> string"
  fromisoformat :: "string \<Rightarrow> date option"

text \<open>Python's truth value of a JSON scalar (\<^verbatim>\<open>if x\<close>, \<^verbatim>\<open>not x\<close>, \<^verbatim>\<open>x or y\<close>).\<close>

fun truthy :: "'f python \<Rightarrow> 'f json \<Rightarrow> bool" where
  "truthy rt JNull = False"
| "truthy rt (JBool b) = b"
| "truthy rt (JInt n) = (n \<noteq> 0)"
| "truthy rt (JNum x) = float_truth rt x"
| "truthy rt (JStr s) = (s \<noteq> [])"

text \<open>The Python value of \<^verbatim>\<open>d.get(k)\<close> on a record of cells: \<^verbatim>\<open>None\<close> or a string.\<close>

fun cell_val :: "string option \<Rightarrow> 'f json" where
  "cell_val None = JNull"
| "cell_val (Some s) = JStr s"

subsection \<open>Decimal numerals\<close>

definition digit_chars :: string where
  "digit_chars = ''0123456789''"

fun str_nat :: "nat \<Rightarrow> string" where
  "str_nat n =
     (if n < 10 then [digit_chars ! n] else str_nat (n div 10) @ [digit_chars ! (n mod 10)])"

declare str_nat.simps [simp del]

text \<open>\<^verbatim>\<open>str(i)\<close> of an integer.\<close>

definition str_int :: "int \<Rightarrow> string" where
  "str_int i = (if i < 0 then CHR ''-'' # str_nat (nat (- i)) else str_nat (nat i))"

text \<open>\<^verbatim>\<open>str(x)\<close> of a JSON scalar.\<close>

fun py_str :: "'f python \<Rightarrow> 'f json \<Rightarrow> string" where
  "py_str rt JNull = ''None''"
| "py_str rt (JBool b) = (if b then ''True'' else ''False'')"
| "py_str rt (JInt n) = str_int n"
| "py_str rt (JNum x) = float_str rt x"
| "py_str rt (JStr s) = s"

text \<open>\<^verbatim>\<open>int(x)\<close> of a JSON scalar, as line 132 and line 180 apply it to \<^verbatim>\<open>qty\<close>.\<close>

fun py_int :: "'f python \<Rightarrow> 'f json \<Rightarrow> error + int" where
  "py_int rt JNull = Inl TypeError"
| "py_int rt (JBool b) = Inr (if b then 1 else 0)"
| "py_int rt (JInt n) = Inr n"
| "py_int rt (JNum x) = int_of_float rt x"
| "py_int rt (JStr s) = (case int_of_str rt s of None \<Rightarrow> Inl ValueError | Some n \<Rightarrow> Inr n)"

subsection \<open>Dates\<close>

text \<open>
  A \<^verbatim>\<open>datetime.date\<close> is (year, month, day); Python compares dates chronologically, which
  is the lexicographic order of the triple. The two dates are the defaults of lines 65-69.
\<close>

definition date_min :: date where
  "date_min = (1970, 1, 1)"

definition date_max :: date where
  "date_max = (9999, 12, 31)"

section \<open>Record Mapper\<close>

text \<open>
  A Python \<^verbatim>\<open>dict\<close> is an association list with one entry per key, in insertion order;
  \<open>setitem\<close> is \<^verbatim>\<open>d[k] = v\<close>, \<open>get\<close> is \<^verbatim>\<open>d.get(k)\<close> and \<open>get_or\<close> is
  \<^verbatim>\<open>d.get(k, default)\<close>. The empty dict \<open>[]\<close> is the only falsy one.
\<close>

fun setitem :: "'k \<Rightarrow> 'v \<Rightarrow> ('k \<times> 'v) list \<Rightarrow> ('k \<times> 'v) list" where
  "setitem k v [] = [(k, v)]"
| "setitem k v ((k', v') # d) = (if k' = k then (k', v) # d else (k', v') # setitem k v d)"

definition get :: "('k \<times> 'v) list \<Rightarrow> 'k \<Rightarrow> 'v option" where
  "get d k = map_of d k"

definition get_or :: "('k \<times> 'v) list \<Rightarrow> 'k \<Rightarrow> 'v \<Rightarrow> 'v" where
  "get_or d k dflt = (case get d k of None \<Rightarrow> dflt | Some v \<Rightarrow> v)"

text \<open>
  The dict comprehension of \<^verbatim>\<open>to_dicts\<close> (line 36) for one row:
  \<^verbatim>\<open>{h: (r[i] if i < len(r) else "") for i, h in enumerate(headers)}\<close>.
\<close>

fun row_dict :: "string list \<Rightarrow> nat \<Rightarrow> row \<Rightarrow> dict \<Rightarrow> dict" where
  "row_dict [] i r d = d"
| "row_dict (h # hs) i r d =
     row_dict hs (Suc i) r (setitem h (if i < length r then r ! i else []) d)"

definition to_dicts :: "table \<Rightarrow> dict list" where
  "to_dicts rows =
     (case rows of [] \<Rightarrow> [] | headers # body \<Rightarrow> map (\<lambda>r. row_dict headers 0 r []) body)"

section \<open>The backing store\<close>

text \<open>
  The spreadsheet: its tabs by name, the Sales log (its rows keep the Python values the
  code appends), and the list of calls made to the sheet, in order. \<open>number_format\<close> is
  the text the sheet shows for a number written to a cell: the sheet's own business. The
  sheet answers every call; a call that the Sheets service refuses is outside the model.
\<close>

datatype access = ReadTab string | AppendRow string | UpdateRow string nat

record 'f sale =
  timestamp :: string
  sale_user_id :: "'f json"
  sale_person_entity_id :: string
  sale_customer_id :: "'f json"
  sale_product_id :: "string option"
  sale_short_id :: "string option"
  sale_qty :: int
  sale_price :: 'f
  sale_commission_pct :: 'f
  sale_total :: 'f
  sale_payment_method :: "'f json"

record 'f store =
  tabs :: "string \<Rightarrow> table"
  sales :: "'f sale list"
  accesses :: "access list"
  number_format :: "'f \<Rightarrow> string"

definition read_tab :: "'f store \<Rightarrow> string \<Rightarrow> table \<times> 'f store" where
  "read_tab s tab = (tabs s tab, s\<lparr>accesses := accesses s @ [ReadTab tab]\<rparr>)"

text \<open>\<^verbatim>\<open>values().append(range="Sales!A:Z", ...)\<close> of lines 148 and 188.\<close>

definition append_sale :: "'f store \<Rightarrow> 'f sale \<Rightarrow> 'f store" where
  "append_sale s r =
     s\<lparr>sales := sales s @ [r], accesses := accesses s @ [AppendRow ''Sales'']\<rparr>"

text \<open>
  \<^verbatim>\<open>update_row\<close> (lines 75-83) overwrites the sheet row \<open>row_idx\<close> (counted from 1, the
  header being row 1) with \<open>row_values\<close>.
\<close>

definition update_row :: "'f store \<Rightarrow> string \<Rightarrow> nat \<Rightarrow> string list \<Rightarrow> row \<Rightarrow> 'f store" where
  "update_row s tab row_idx headers row_values =
     s\<lparr>tabs := (tabs s)(tab := (tabs s tab)[row_idx - 1 := row_values]),
       accesses := accesses s @ [UpdateRow tab row_idx]\<rparr>"

section \<open>Lookups\<close>

fun lookup_user_loop :: "dict list \<Rightarrow> 'f json \<Rightarrow> dict" where
  "lookup_user_loop [] user_id = []"
| "lookup_user_loop (u # us) user_id =
     (if cell_val (get u ''user_id'') = user_id then u else lookup_user_loop us user_id)"

definition lookup_user :: "'f python \<Rightarrow> 'f store \<Rightarrow> 'f json \<Rightarrow> dict \<times> 'f store" where
  "lookup_user rt s user_id =
     (if truthy rt user_id then
        (case read_tab s ''Users'' of
           (rows, s') \<Rightarrow> (lookup_user_loop (to_dicts rows) user_id, s'))
      else ([], s))"

fun lookup_product_loop :: "'f python \<Rightarrow> dict list \<Rightarrow> 'f json \<Rightarrow> 'f json \<Rightarrow> dict" where
  "lookup_product_loop rt [] product_id short_id = []"
| "lookup_product_loop rt (p # ps) product_id short_id =
     (if truthy rt product_id \<and> cell_val (get p ''product_id'') = product_id then p
      else if truthy rt short_id \<and> cell_val (get p ''short_id'') = short_id then p
      else lookup_product_loop rt ps product_id short_id)"

definition lookup_product ::
  "'f python \<Rightarrow> 'f store \<Rightarrow> 'f json \<Rightarrow> 'f json \<Rightarrow> dict \<times> 'f store" where
  "lookup_product rt s product_id short_id =
     (case read_tab s ''Products'' of
        (rows, s') \<Rightarrow> (lookup_product_loop rt (to_dicts rows) product_id short_id, s'))"

text \<open>
  The loop of \<^verbatim>\<open>lookup_reseller_price\<close> (lines 59-72). The two guarded parses fall back
  to 1970-01-01 and 9999-12-31; the parse of the current best row's \<^verbatim>\<open>valid_from\<close> on
  line 71 has no guard, so its \<^verbatim>\<open>ValueError\<close> leaves the function.
\<close>

definition parse_or :: "'f python \<Rightarrow> string \<Rightarrow> date \<Rightarrow> date" where
  "parse_or rt v dflt =
     (if v = [] then dflt else (case fromisoformat rt v of None \<Rightarrow> dflt | Some d \<Rightarrow> d))"

fun price_loop ::
  "'f python \<Rightarrow> dict list \<Rightarrow> 'f json \<Rightarrow> 'f json \<Rightarrow> date \<Rightarrow> dict \<Rightarrow> error + dict" where
  "price_loop rt [] reseller_id product_id on_date best = Inr best"
| "price_loop rt (r # rs) reseller_id product_id on_date best =
     (if cell_val (get r ''reseller_id'') = reseller_id
         \<and> cell_val (get r ''product_id'') = product_id then
        (let vf_date = parse_or rt (get_or r ''valid_from'' []) date_min;
             vt_date = parse_or rt (get_or r ''valid_to'' []) date_max
         in if vf_date \<le> on_date \<and> on_date \<le> vt_date then
              (if best = [] then price_loop rt rs reseller_id product_id on_date r
               else (case fromisoformat rt (get_or best ''valid_from'' ''1970-01-01'') of
                       None \<Rightarrow> Inl ValueError
                     | Some b \<Rightarrow>
                         (if b \<le> vf_date then price_loop rt rs reseller_id product_id on_date r
                          else price_loop rt rs reseller_id product_id on_date best)))
            else price_loop rt rs reseller_id product_id on_date best)
      else price_loop rt rs reseller_id product_id on_date best)"

definition lookup_reseller_price ::
  "'f python \<Rightarrow> 'f store \<Rightarrow> 'f json \<Rightarrow> 'f json \<Rightarrow> date \<Rightarrow> (error + dict) \<times> 'f store" where
  "lookup_reseller_price rt s reseller_id product_id on_date =
     (case read_tab s ''ResellerPricing'' of
        (rows, s') \<Rightarrow> (price_loop rt (to_dicts rows) reseller_id product_id on_date [], s'))"

text \<open>
  The test of lines 60-70 that makes a row replace or challenge the current best: both
  keys match and the row's window, with its defaults, contains the date. \<open>valid_from_date\<close>
  is the \<^verbatim>\<open>vf_date\<close> of lines 64-66.
\<close>

definition valid_from_date :: "'f python \<Rightarrow> dict \<Rightarrow> date" where
  "valid_from_date rt r = parse_or rt (get_or r ''valid_from'' []) date_min"

definition candidate :: "'f python \<Rightarrow> 'f json \<Rightarrow> 'f json \<Rightarrow> date \<Rightarrow> dict \<Rightarrow> bool" where
  "candidate rt reseller_id product_id on_date r =
     (cell_val (get r ''reseller_id'') = reseller_id
      \<and> cell_val (get r ''product_id'') = product_id
      \<and> valid_from_date rt r \<le> on_date
      \<and> on_date \<le> parse_or rt (get_or r ''valid_to'' []) date_max)"

section \<open>Operations\<close>

text \<open>
  \<^verbatim>\<open>get_stock\<close> (lines 116-125). Both query parameters are a string or \<^verbatim>\<open>None\<close>.
  Line 121 reads the key \<^verbatim>\<open>user_id\<close> of the user record into \<^verbatim>\<open>rid\<close>.
\<close>

definition get_stock ::
  "'f python \<Rightarrow> 'f store \<Rightarrow> string option \<Rightarrow> string option \<Rightarrow> dict list \<times> 'f store" where
  "get_stock rt s reseller_id user_id =
     (case read_tab s ''Stock'' of
        (rows, s1) \<Rightarrow>
          (let items = to_dicts rows in
           if truthy rt (cell_val user_id) then
             (case lookup_user rt s1 (cell_val user_id) of
                (u, s2) \<Rightarrow>
                  (let rid = (if u = [] then JNull else cell_val (get u ''user_id''))
                   in if truthy rt rid
                      then (filter (\<lambda>x. cell_val (get x ''reseller_id'') = rid) items, s2)
                      else (items, s2)))
           else if truthy rt (cell_val reseller_id) then
             (filter (\<lambda>x. cell_val (get x ''reseller_id'') = (cell_val reseller_id :: 'f json))
                items, s1)
           else (items, s1)))"

text \<open>
  Lines 142-145 (and 182-185). \<open>py_or\<close> is \<^verbatim>\<open>a or b\<close> on two cells that may be missing,
  \<open>float_or0\<close> is \<^verbatim>\<open>float(x or 0)\<close>, \<open>resolve_price\<close> is the price with its fallback inside
  the handler of line 143, where the second \<^verbatim>\<open>float\<close> has no guard, and
  \<open>resolve_commission\<close> is the commission with its handler.
\<close>

definition py_or :: "string option \<Rightarrow> string option \<Rightarrow> string option" where
  "py_or a b = (case a of None \<Rightarrow> b | Some v \<Rightarrow> if v = [] then b else a)"

definition float_or0 :: "'f python \<Rightarrow> string option \<Rightarrow> 'f option" where
  "float_or0 rt v =
     (case v of
        None \<Rightarrow> Some (float_zero rt)
      | Some s \<Rightarrow> (if s = [] then Some (float_zero rt) else float_of_str rt s))"

definition resolve_price :: "'f python \<Rightarrow> dict \<Rightarrow> dict \<Rightarrow> error + 'f" where
  "resolve_price rt rp product =
     (case float_or0 rt (py_or (get rp ''price'') (get product ''base_price'')) of
        Some x \<Rightarrow> Inr x
      | None \<Rightarrow>
          (case float_or0 rt (get product ''base_price'') of
             Some x \<Rightarrow> Inr x
           | None \<Rightarrow> Inl ValueError))"

definition resolve_commission :: "'f python \<Rightarrow> dict \<Rightarrow> 'f" where
  "resolve_commission rt rp =
     (case float_or0 rt (get rp ''commission_pct'') of Some x \<Rightarrow> x | None \<Rightarrow> float_zero rt)"

text \<open>
  The stock adjustment, lines 149-161 of \<^verbatim>\<open>pos_sale\<close> and, word for word, lines 189-201
  of \<^verbatim>\<open>checkout\<close>. \<open>index\<close> is \<^verbatim>\<open>list.index\<close> (\<open>None\<close>: its \<^verbatim>\<open>ValueError\<close>).
  \<open>parse_qty\<close> is the conditional expression of line 158. \<open>stock_loop\<close> is the \<^verbatim>\<open>for\<close>
  loop: \<open>Inr None\<close> when no row matches, \<open>Inr (Some (i, r_out))\<close> at the first matching
  row, \<open>Inl ValueError\<close> when that row's quantity is not a number, \<open>Inl OverflowError\<close>
  when \<^verbatim>\<open>cur - qty\<close> of line 159 cannot convert \<^verbatim>\<open>qty\<close>. The handler of line 161 catches
  the \<^verbatim>\<open>ValueError\<close> of \<^verbatim>\<open>index\<close> and of \<^verbatim>\<open>float\<close>, and nothing else: \<open>adjust_stock\<close>
  returns the error that leaves it, if any, and the store.
\<close>

fun index :: "'a list \<Rightarrow> 'a \<Rightarrow> nat option" where
  "index [] x = None"
| "index (y # ys) x = (if y = x then Some 0 else map_option Suc (index ys x))"

definition cell_at :: "row \<Rightarrow> nat \<Rightarrow> string" where
  "cell_at r i = (if i < length r then r ! i else [])"

definition parse_qty :: "'f python \<Rightarrow> row \<Rightarrow> nat \<Rightarrow> 'f option" where
  "parse_qty rt r qty_idx =
     (if qty_idx < length r \<and> r ! qty_idx \<noteq> [] then float_of_str rt (r ! qty_idx)
      else Some (float_zero rt))"

fun stock_loop ::
  "'f python \<Rightarrow> ('f \<Rightarrow> string) \<Rightarrow> nat \<Rightarrow> nat \<Rightarrow> nat \<Rightarrow> nat \<Rightarrow> string \<Rightarrow> string \<Rightarrow> int \<Rightarrow> nat
     \<Rightarrow> table \<Rightarrow> error + (nat \<times> row) option" where
  "stock_loop rt fmt n pid_idx rid_idx qty_idx product reseller qty i [] = Inr None"
| "stock_loop rt fmt n pid_idx rid_idx qty_idx product reseller qty i (r # rs) =
     (if cell_at r pid_idx = product \<and> cell_at r rid_idx = reseller then
        (case parse_qty rt r qty_idx of
           None \<Rightarrow> Inl ValueError
         | Some cur \<Rightarrow>
             (case float_of_int rt qty of
                None \<Rightarrow> Inl OverflowError
              | Some y \<Rightarrow>
                  Inr (Some (i, (r @ replicate (n - length r) [])
                                  [qty_idx := fmt (float_sub rt cur y)]))))
      else stock_loop rt fmt n pid_idx rid_idx qty_idx product reseller qty (Suc i) rs)"

definition adjust_stock ::
  "'f python \<Rightarrow> 'f store \<Rightarrow> 'f json \<Rightarrow> string option \<Rightarrow> int \<Rightarrow> error option \<times> 'f store" where
  "adjust_stock rt s reseller_id product_id qty =
     (case read_tab s ''Stock'' of
        (stock_rows, s1) \<Rightarrow>
          (case stock_rows of
             [] \<Rightarrow> (None, s1)
           | hdr # body \<Rightarrow>
               (case index hdr ''product_id'' of
                  None \<Rightarrow> (None, s1)
                | Some pid_idx \<Rightarrow>
                    (case index hdr ''reseller_id'' of
                       None \<Rightarrow> (None, s1)
                     | Some rid_idx \<Rightarrow>
                         (case index hdr ''reseller_qty'' of
                            None \<Rightarrow> (None, s1)
                          | Some qty_idx \<Rightarrow>
                              (if truthy rt reseller_id then
                                 (case stock_loop rt (number_format s) (length hdr) pid_idx
                                         rid_idx qty_idx (py_str rt (cell_val product_id))
                                         (py_str rt reseller_id) qty 2 body of
                                    Inl err \<Rightarrow>
                                      (if err = ValueError then (None, s1) else (Some err, s1))
                                  | Inr None \<Rightarrow> (None, s1)
                                  | Inr (Some (i, r_out)) \<Rightarrow>
                                      (None, update_row s1 ''Stock'' i hdr r_out))
                               else (None, s1)))))))"

text \<open>
  The clock: \<^verbatim>\<open>datetime.datetime.now().isoformat()\<close> and \<^verbatim>\<open>datetime.date.today()\<close>
  are inputs of a request.
\<close>

record env =
  now :: string
  today :: date

record 'f sale_result =
  res_total :: 'f
  res_customer_id :: "'f json"
  res_payment_method :: "'f json"
  res_price :: 'f
  res_commission_pct :: 'f

text \<open>
  \<^verbatim>\<open>pos_sale\<close> (lines 127-163) on the request body \<open>p\<close>, a JSON object. Line 146 forms
  \<^verbatim>\<open>price * qty\<close>, a float times an integer: Python converts \<^verbatim>\<open>qty\<close> to a float, which
  raises \<^verbatim>\<open>OverflowError\<close> for an integer beyond the range of a float, and multiplies.
  Reading the options file, building the client and firing the event touch no tab and
  cannot fail the sale; they are left out, and so is the rendering of the answer.
\<close>

definition pos_sale ::
  "'f python \<Rightarrow> env \<Rightarrow> 'f obj \<Rightarrow> 'f store \<Rightarrow> (error + 'f sale_result) \<times> 'f store" where
  "pos_sale rt e p s =
     (let user_id = get_or p ''user_id'' (JStr []);
          reseller_id = get_or p ''reseller_id'' (JStr []);
          product_id = get_or p ''product_id'' JNull;
          short_id = get_or p ''short_id'' JNull
      in case py_int rt (get_or p ''qty'' (JInt 1)) of
           Inl err \<Rightarrow> (Inl err, s)
         | Inr qty \<Rightarrow>
             (let customer_id = get_or p ''customer_id'' (JStr ''C-000'');
                  payment_method = get_or p ''payment_method'' (JStr ''cash'')
              in if truthy rt product_id \<or> truthy rt short_id then
                   (case lookup_user rt s user_id of
                      (u, s1) \<Rightarrow>
                        (let person_entity_id =
                               (if u = [] then [] else get_or u ''person_entity_id'' [])
                         in case lookup_product rt s1 product_id short_id of
                              (product, s2) \<Rightarrow>
                                (if product = [] then
                                   (Inl (HTTPException 404 ''Product not found''), s2)
                                 else
                                   (let product_id = get product ''product_id'';
                                        short_id = get product ''short_id''
                                    in case lookup_reseller_price rt s2 reseller_id
                                              (cell_val product_id) (today e) of
                                         (Inl err, s3) \<Rightarrow> (Inl err, s3)
                                       | (Inr rp, s3) \<Rightarrow>
                                           (case resolve_price rt rp product of
                                              Inl err \<Rightarrow> (Inl err, s3)
                                            | Inr price \<Rightarrow>
                                                (let commission_pct = resolve_commission rt rp
                                                 in case float_of_int rt qty of
                                                      None \<Rightarrow> (Inl OverflowError, s3)
                                                    | Some y \<Rightarrow>
                                                (let total = float_mul rt price y;
                                                     sale_row =
                                                       \<lparr>timestamp = now e,
                                                        sale_user_id = user_id,
                                                        sale_person_entity_id = person_entity_id,
                                                        sale_customer_id = customer_id,
                                                        sale_product_id = product_id,
                                                        sale_short_id = short_id,
                                                        sale_qty = qty,
                                                        sale_price = price,
                                                        sale_commission_pct = commission_pct,
                                                        sale_total = total,
                                                        sale_payment_method = payment_method\<rparr>;
                                                     s4 = append_sale s3 sale_row
                                                 in case adjust_stock rt s4 reseller_id
                                                           product_id qty of
                                                      (Some err, s5) \<Rightarrow> (Inl err, s5)
                                                    | (None, s5) \<Rightarrow>
                                                        (Inr \<lparr>res_total = total,
                                                              res_customer_id = customer_id,
                                                              res_payment_method = payment_method,
                                                              res_price = price,
                                                              res_commission_pct = commission_pct\<rparr>,
                                                         s5))))))))
                 else (Inl (HTTPException 400 ''product_id or short_id required''), s)))"

text \<open>
  \<^verbatim>\<open>checkout\<close> (lines 165-203): \<open>items\<close> is the list under the key \<^verbatim>\<open>items\<close> of the
  body (absent: the empty list), each item a JSON object, and \<open>p\<close> holds the other fields.
  \<open>checkout_loop\<close> is the \<^verbatim>\<open>for\<close> loop with its two accumulators; line 186 forms the
  total as line 146 does. The detail text of its 404 also prints the item; the model
  keeps the fixed part.
\<close>

record 'f checkout_result =
  co_total :: 'f
  co_lines :: nat
  co_customer_id :: "'f json"
  co_payment_method :: "'f json"

fun checkout_loop ::
  "'f python \<Rightarrow> env \<Rightarrow> 'f json \<Rightarrow> string \<Rightarrow> 'f json \<Rightarrow> 'f json \<Rightarrow> 'f json \<Rightarrow> 'f obj list
     \<Rightarrow> 'f \<Rightarrow> nat \<Rightarrow> 'f store \<Rightarrow> (error + 'f \<times> nat) \<times> 'f store" where
  "checkout_loop rt e user_id person_entity_id reseller_id customer_id payment_method []
     grand_total written s = (Inr (grand_total, written), s)"
| "checkout_loop rt e user_id person_entity_id reseller_id customer_id payment_method (it # its)
     grand_total written s =
     (case lookup_product rt s (get_or it ''product_id'' JNull) (get_or it ''short_id'' JNull) of
        (product, s1) \<Rightarrow>
          (if product = [] then (Inl (HTTPException 404 ''Product not found''), s1)
           else
             (let product_id = get product ''product_id'';
                  short_id = get product ''short_id''
              in case py_int rt (get_or it ''qty'' (JInt 1)) of
                   Inl err \<Rightarrow> (Inl err, s1)
                 | Inr qty \<Rightarrow>
                     (case lookup_reseller_price rt s1 reseller_id (cell_val product_id)
                             (today e) of
                        (Inl err, s2) \<Rightarrow> (Inl err, s2)
                      | (Inr rp, s2) \<Rightarrow>
                          (case resolve_price rt rp product of
                             Inl err \<Rightarrow> (Inl err, s2)
                           | Inr price \<Rightarrow>
                               (let commission_pct = resolve_commission rt rp
                                in case float_of_int rt qty of
                                     None \<Rightarrow> (Inl OverflowError, s2)
                                   | Some y \<Rightarrow>
                               (let total = float_mul rt price y;
                                    row =
                                      \<lparr>timestamp = now e,
                                       sale_user_id = user_id,
                                       sale_person_entity_id = person_entity_id,
                                       sale_customer_id = customer_id,
                                       sale_product_id = product_id,
                                       sale_short_id = short_id,
                                       sale_qty = qty,
                                       sale_price = price,
                                       sale_commission_pct = commission_pct,
                                       sale_total = total,
                                       sale_payment_method = payment_method\<rparr>;
                                    s3 = append_sale s2 row
                                in case adjust_stock rt s3 reseller_id product_id qty of
                                     (Some err, s4) \<Rightarrow> (Inl err, s4)
                                   | (None, s4) \<Rightarrow>
                                       checkout_loop rt e user_id person_entity_id reseller_id
                                         customer_id payment_method its
                                         (float_add rt grand_total total) (Suc written) s4)))))))"

definition checkout ::
  "'f python \<Rightarrow> env \<Rightarrow> 'f obj \<Rightarrow> 'f obj list \<Rightarrow> 'f store
     \<Rightarrow> (error + 'f checkout_result) \<times> 'f store" where
  "checkout rt e p items s =
     (if items = [] then (Inl (HTTPException 400 ''No items''), s)
      else
        (let user_id = get_or p ''user_id'' (JStr []);
             reseller_id = get_or p ''reseller_id'' (JStr []);
             customer_id = get_or p ''customer_id'' (JStr ''C-000'');
             payment_method = get_or p ''payment_method'' (JStr ''cash'')
         in case lookup_user rt s user_id of
              (u, s1) \<Rightarrow>
                (let person_entity_id =
                       (if u = [] then [] else get_or u ''person_entity_id'' [])
                 in case checkout_loop rt e user_id person_entity_id reseller_id customer_id
                           payment_method items (float_zero rt) 0 s1 of
                      (Inl err, s2) \<Rightarrow> (Inl err, s2)
                    | (Inr (grand_total, written), s2) \<Rightarrow>
                        (Inr \<lparr>co_total = grand_total,
                              co_lines = written,
                              co_customer_id = customer_id,
                              co_payment_method = payment_method\<rparr>,
                         s2))))"

section \<open>A small shop\<close>

subsection \<open>An example runtime\<close>

text \<open>
  The runtime is an input of every operation, as the store is. CPython's own runtime is
  one of the runtimes the theorems range over; it is not defined here. The examples need
  some runtime to run on, and \<open>example_runtime\<close> is a simple one: its floats are the
  rationals and it computes on them exactly; \<open>decimal_int\<close> and \<open>decimal_float\<close> read
  surrounding white space, an optional sign and plain decimal digits (with an optional
  fraction for the float) and nothing else; \<open>calendar_date\<close> reads \<^verbatim>\<open>YYYY-MM-DD\<close> and
  nothing else; an integer converts to a float when it rounds to a finite double; its
  \<^verbatim>\<open>str\<close> of a float is Python's for whole numbers of at most sixteen digits. On the
  strings and numbers of the examples below it agrees with CPython; no theorem stated for
  a runtime \<open>rt\<close> depends on it.
\<close>

definition digit_val :: "char \<Rightarrow> nat option" where
  "digit_val c = map_of (zip digit_chars [0, 1, 2, 3, 4, 5, 6, 7, 8, 9]) c"

fun digits_val :: "string \<Rightarrow> nat \<Rightarrow> nat option" where
  "digits_val [] acc = Some acc"
| "digits_val (c # cs) acc =
     (case digit_val c of None \<Rightarrow> None | Some d \<Rightarrow> digits_val cs (10 * acc + d))"

definition nat_of_digits :: "string \<Rightarrow> nat option" where
  "nat_of_digits s = (if s = [] then None else digits_val s 0)"

definition is_space :: "char \<Rightarrow> bool" where
  "is_space c = (c \<in> set [CHR '' '', CHR 0x09, CHR 0x0A, CHR 0x0B, CHR 0x0C, CHR 0x0D])"

definition strip :: "string \<Rightarrow> string" where
  "strip s = rev (dropWhile is_space (rev (dropWhile is_space s)))"

fun split_sign :: "string \<Rightarrow> bool \<times> string" where
  "split_sign [] = (False, [])"
| "split_sign (c # cs) =
     (if c = CHR ''-'' then (True, cs) else if c = CHR ''+'' then (False, cs)
      else (False, c # cs))"

definition decimal_int :: "string \<Rightarrow> int option" where
  "decimal_int s =
     (case split_sign (strip s) of
        (neg, ds) \<Rightarrow>
          (case nat_of_digits ds of
             None \<Rightarrow> None
           | Some n \<Rightarrow> Some (if neg then - int n else int n)))"

definition signed :: "bool \<Rightarrow> rat \<Rightarrow> rat" where
  "signed neg x = (if neg then - x else x)"

definition decimal_float :: "string \<Rightarrow> rat option" where
  "decimal_float s =
     (case split_sign (strip s) of
        (neg, body) \<Rightarrow>
          (let ip = takeWhile (\<lambda>c. c \<noteq> CHR ''.'') body;
               rest = dropWhile (\<lambda>c. c \<noteq> CHR ''.'') body
           in case rest of
                [] \<Rightarrow> map_option (\<lambda>n. signed neg (of_nat n)) (nat_of_digits ip)
              | dot # fp \<Rightarrow>
                  (if ip = [] \<and> fp = [] then None
                   else (case digits_val ip 0 of
                           None \<Rightarrow> None
                         | Some a \<Rightarrow>
                             (case digits_val fp 0 of
                                None \<Rightarrow> None
                              | Some b \<Rightarrow>
                                  Some (signed neg (of_nat a + of_nat b / 10 ^ length fp)))))))"

definition leap :: "nat \<Rightarrow> bool" where
  "leap y = (y mod 4 = 0 \<and> (y mod 400 = 0 \<or> y mod 100 \<noteq> 0))"

definition days_in_month :: "nat \<Rightarrow> nat \<Rightarrow> nat" where
  "days_in_month y m =
     (if m = 2 then (if leap y then 29 else 28)
      else if m = 4 \<or> m = 6 \<or> m = 9 \<or> m = 11 then 30 else 31)"

fun calendar_date :: "string \<Rightarrow> date option" where
  "calendar_date [y1, y2, y3, y4, s1, m1, m2, s2, d1, d2] =
     (if s1 = CHR ''-'' \<and> s2 = CHR ''-'' then
        (case digits_val [y1, y2, y3, y4] 0 of
           None \<Rightarrow> None
         | Some y \<Rightarrow>
             (case digits_val [m1, m2] 0 of
                None \<Rightarrow> None
              | Some m \<Rightarrow>
                  (case digits_val [d1, d2] 0 of
                     None \<Rightarrow> None
                   | Some d \<Rightarrow>
                       (if 1 \<le> y \<and> 1 \<le> m \<and> m \<le> 12 \<and> 1 \<le> d \<and> d \<le> days_in_month y m
                        then Some (y, m, d) else None))))
      else None)"
| "calendar_date _ = None"

definition truncate :: "rat \<Rightarrow> int" where
  "truncate x = (if 0 \<le> x then \<lfloor>x\<rfloor> else \<lceil>x\<rceil>)"

definition int_to_float :: "int \<Rightarrow> rat option" where
  "int_to_float i = (if \<bar>i\<bar> < 2 ^ 1024 - 2 ^ 970 then Some (of_int i) else None)"

definition rat_str :: "rat \<Rightarrow> string" where
  "rat_str x =
     (if x = of_int \<lfloor>x\<rfloor> then str_int \<lfloor>x\<rfloor> @ ''.0''
      else str_int (fst (quotient_of x)) @ ''/'' @ str_int (snd (quotient_of x)))"

definition example_runtime :: "rat python" where
  "example_runtime =
     \<lparr>int_of_str = decimal_int,
      int_of_float = (\<lambda>x. Inr (truncate x)),
      float_of_str = decimal_float,
      float_of_int = int_to_float,
      float_zero = 0,
      float_mul = (\<lambda>x y. x * y),
      float_add = (\<lambda>x y. x + y),
      float_sub = (\<lambda>x y. x - y),
      float_truth = (\<lambda>x. x \<noteq> 0),
      float_str = rat_str,
      fromisoformat = calendar_date\<rparr>"

subsection \<open>The data\<close>

text \<open>
  One user, two products whose keys \<^verbatim>\<open>P1\<close> and \<^verbatim>\<open>S9\<close> sit on different rows, two
  overlapping price windows and a stock tab with a duplicate row. The sheet of the example
  shows a number by its integer part.
\<close>

definition whole_number_format :: "rat \<Rightarrow> string" where
  "whole_number_format x = str_int \<lfloor>x\<rfloor>"

definition shop :: "rat store" where
  "shop =
     \<lparr>tabs = (\<lambda>tab. [])
        (''Users'' :=
           [[''user_id'', ''person_entity_id'', ''reseller_id''],
            [''U1'', ''person.anna'', ''R1'']],
         ''Products'' :=
           [[''product_id'', ''short_id'', ''base_price''],
            [''P2'', ''S9'', ''7''],
            [''P1'', ''S1'', ''12'']],
         ''ResellerPricing'' :=
           [[''reseller_id'', ''product_id'', ''valid_from'', ''valid_to'', ''price'',
             ''commission_pct''],
            [''R1'', ''P1'', ''2024-01-01'', ''2024-12-31'', ''10.0'', ''5.0''],
            [''R1'', ''P1'', ''2024-06-01'', ''2024-12-31'', ''8.5'', ''4'']],
         ''Stock'' :=
           [[''product_id'', ''reseller_id'', ''reseller_qty''],
            [''P1'', ''R1'', ''2''],
            [''P1'', ''R2'', ''7''],
            [''P1'', ''R1'', ''9'']]),
      sales = [], accesses = [], number_format = whole_number_format\<rparr>"

definition spring :: env where
  "spring = \<lparr>now = ''2024-03-01T10:00:00'', today = (2024, 3, 1)\<rparr>"

text \<open>The same shop with a first price row whose \<^verbatim>\<open>valid_from\<close> cell is blank.\<close>

definition shop_blank_from :: "rat store" where
  "shop_blank_from =
     shop\<lparr>tabs := (tabs shop)
       (''ResellerPricing'' :=
          [[''reseller_id'', ''product_id'', ''valid_from'', ''valid_to'', ''price'',
            ''commission_pct''],
           [''R1'', ''P1'', [], [], ''9.0'', ''5''],
           [''R1'', ''P1'', ''2024-06-01'', ''2024-12-31'', ''8.0'', ''5'']])\<rparr>"

text \<open>The shop with a first price row whose \<^verbatim>\<open>valid_from\<close> cell is not a date.\<close>

definition shop_soon :: "rat store" where
  "shop_soon =
     shop\<lparr>tabs := (tabs shop)
       (''ResellerPricing'' :=
          [[''reseller_id'', ''product_id'', ''valid_from'', ''valid_to'', ''price'',
            ''commission_pct''],
           [''R1'', ''P1'', ''soon'', [], ''9.0'', ''5''],
           [''R1'', ''P1'', ''2024-01-01'', [], ''8.0'', ''5'']])\<rparr>"

text \<open>The shop with a stock row whose quantity cell is not a number.\<close>

definition shop_bad_qty :: "rat store" where
  "shop_bad_qty =
     shop\<lparr>tabs := (tabs shop)
       (''Stock'' :=
          [[''product_id'', ''reseller_id'', ''reseller_qty''],
           [''P1'', ''R1'', ''n/a''],
           [''P1'', ''R1'', ''9'']])\<rparr>"

text \<open>The shop with a stock row that stops before its quantity cell.\<close>

definition shop_no_qty :: "rat store" where
  "shop_no_qty =
     shop\<lparr>tabs := (tabs shop)
       (''Stock'' :=
          [[''product_id'', ''reseller_id'', ''reseller_qty''],
           [''P1'', ''R1''],
           [''P1'', ''R1'', ''9'']])\<rparr>"

text \<open>A sale of three \<^verbatim>\<open>P1\<close> by reseller \<^verbatim>\<open>R1\<close>, and the parts of a checkout.\<close>

definition sale_request :: "rat obj" where
  "sale_request =
     [(''user_id'', JStr ''U1''), (''reseller_id'', JStr ''R1''),
      (''product_id'', JStr ''P1''), (''qty'', JInt 3)]"

text \<open>The same sale with a quantity of ten to the power 400.\<close>

definition huge_request :: "rat obj" where
  "huge_request =
     [(''user_id'', JStr ''U1''), (''reseller_id'', JStr ''R1''),
      (''product_id'', JStr ''P1''), (''qty'', JInt (10 ^ 400))]"

definition checkout_body :: "rat obj" where
  "checkout_body = [(''user_id'', JStr ''U1''), (''reseller_id'', JStr ''R1'')]"

definition item_p1 :: "rat obj" where
  "item_p1 = [(''product_id'', JStr ''P1''), (''qty'', JInt 3)]"

definition item_unknown :: "rat obj" where
  "item_unknown = [(''product_id'', JStr ''P404''), (''short_id'', JStr ''S404'')]"

definition p1_row :: dict where
  "p1_row = [(''product_id'', ''P1''), (''short_id'', ''S1''), (''base_price'', ''12'')]"

definition spring_price :: dict where
  "spring_price =
     [(''reseller_id'', ''R1''), (''product_id'', ''P1''), (''valid_from'', ''2024-01-01''),
      (''valid_to'', ''2024-12-31''), (''price'', ''10.0''), (''commission_pct'', ''5.0'')]"

definition summer_price :: dict where
  "summer_price =
     [(''reseller_id'', ''R1''), (''product_id'', ''P1''), (''valid_from'', ''2024-06-01''),
      (''valid_to'', ''2024-12-31''), (''price'', ''8.5''), (''commission_pct'', ''4'')]"

text \<open>The shop with a price row whose \<^verbatim>\<open>price\<close> and \<^verbatim>\<open>commission_pct\<close> cells are not
  numbers, and that row as a record.\<close>

definition shop_bad_price :: "rat store" where
  "shop_bad_price =
     shop\<lparr>tabs := (tabs shop)
       (''ResellerPricing'' :=
          [[''reseller_id'', ''product_id'', ''valid_from'', ''valid_to'', ''price'',
            ''commission_pct''],
           [''R1'', ''P1'', ''2024-01-01'', ''2024-12-31'', ''n/a'', ''x'']])\<rparr>"

definition bad_price :: dict where
  "bad_price =
     [(''reseller_id'', ''R1''), (''product_id'', ''P1''), (''valid_from'', ''2024-01-01''),
      (''valid_to'', ''2024-12-31''), (''price'', ''n/a''), (''commission_pct'', ''x'')]"

subsection \<open>The fallbacks as the specification words them\<close>

text \<open>
  \<open>spec_number\<close> is the number in a cell, when the cell is there, is not empty and
  \<^verbatim>\<open>float\<close> reads it. \<open>spec_price\<close> is the price of the specification: the number in the
  \<^verbatim>\<open>price\<close> cell of the resolved reseller price and, failing that, the product's
  \<^verbatim>\<open>base_price\<close>, which counts as 0 when missing or empty; it is \<open>None\<close> when the
  \<^verbatim>\<open>base_price\<close> it falls back to is itself refused by \<^verbatim>\<open>float\<close>. \<open>spec_commission\<close> is the
  number in the \<^verbatim>\<open>commission_pct\<close> cell and, failing that, 0.
\<close>

definition spec_number :: "'f python \<Rightarrow> string option \<Rightarrow> 'f option" where
  "spec_number rt v =
     (case v of None \<Rightarrow> None | Some s \<Rightarrow> if s = [] then None else float_of_str rt s)"

definition spec_price :: "'f python \<Rightarrow> dict \<Rightarrow> dict \<Rightarrow> 'f option" where
  "spec_price rt rp product =
     (case spec_number rt (get rp ''price'') of
        Some x \<Rightarrow> Some x
      | None \<Rightarrow>
          (case get product ''base_price'' of
             None \<Rightarrow> Some (float_zero rt)
           | Some w \<Rightarrow> if w = [] then Some (float_zero rt) else float_of_str rt w))"

definition spec_commission :: "'f python \<Rightarrow> dict \<Rightarrow> 'f" where
  "spec_commission rt rp =
     (case spec_number rt (get rp ''commission_pct'') of
        Some x \<Rightarrow> x
      | None \<Rightarrow> float_zero rt)"

section \<open>Facts about the store\<close>

lemma read_tab_simps [simp]:
  "fst (read_tab s t) = tabs s t"
  "tabs (snd (read_tab s t)) = tabs s"
  "sales (snd (read_tab s t)) = sales s"
  "number_format (snd (read_tab s t)) = number_format s"
  "accesses (snd (read_tab s t)) = accesses s @ [ReadTab t]"
  by (simp_all add: read_tab_def)

lemma lookup_user_simps [simp]:
  "fst (lookup_user rt s u) =
     (if truthy rt u then lookup_user_loop (to_dicts (tabs s ''Users'')) u else [])"
  "tabs (snd (lookup_user rt s u)) = tabs s"
  "sales (snd (lookup_user rt s u)) = sales s"
  "number_format (snd (lookup_user rt s u)) = number_format s"
  "accesses (snd (lookup_user rt s u)) =
     accesses s @ (if truthy rt u then [ReadTab ''Users''] else [])"
  by (simp_all add: lookup_user_def case_prod_beta)

lemma lookup_product_simps [simp]:
  "fst (lookup_product rt s a b) = lookup_product_loop rt (to_dicts (tabs s ''Products'')) a b"
  "tabs (snd (lookup_product rt s a b)) = tabs s"
  "sales (snd (lookup_product rt s a b)) = sales s"
  "number_format (snd (lookup_product rt s a b)) = number_format s"
  "accesses (snd (lookup_product rt s a b)) = accesses s @ [ReadTab ''Products'']"
  by (simp_all add: lookup_product_def case_prod_beta)

lemma lookup_reseller_price_simps [simp]:
  "fst (lookup_reseller_price rt s a b d) =
     price_loop rt (to_dicts (tabs s ''ResellerPricing'')) a b d []"
  "tabs (snd (lookup_reseller_price rt s a b d)) = tabs s"
  "sales (snd (lookup_reseller_price rt s a b d)) = sales s"
  "number_format (snd (lookup_reseller_price rt s a b d)) = number_format s"
  "accesses (snd (lookup_reseller_price rt s a b d)) = accesses s @ [ReadTab ''ResellerPricing'']"
  by (simp_all add: lookup_reseller_price_def case_prod_beta)

lemma append_sale_simps [simp]:
  "tabs (append_sale s r) = tabs s"
  "sales (append_sale s r) = sales s @ [r]"
  "number_format (append_sale s r) = number_format s"
  "accesses (append_sale s r) = accesses s @ [AppendRow ''Sales'']"
  by (simp_all add: append_sale_def)

lemma example_runtime_simps [simp]:
  "int_of_str example_runtime = decimal_int"
  "int_of_float example_runtime x = Inr (truncate x)"
  "float_of_str example_runtime = decimal_float"
  "float_of_int example_runtime = int_to_float"
  "float_zero example_runtime = 0"
  "float_mul example_runtime x y = x * y"
  "float_add example_runtime x y = x + y"
  "float_sub example_runtime x y = x - y"
  "float_truth example_runtime x = (x \<noteq> 0)"
  "float_str example_runtime = rat_str"
  "fromisoformat example_runtime = calendar_date"
  by (simp_all add: example_runtime_def)

lemmas eval_defs =
  shop_def spring_def shop_blank_from_def shop_soon_def shop_bad_qty_def shop_no_qty_def
  shop_bad_price_def bad_price_def sale_request_def huge_request_def checkout_body_def
  item_p1_def
  item_unknown_def p1_row_def spring_price_def summer_price_def whole_number_format_def
  parse_qty_def str_int_def to_dicts_def get_def get_or_def parse_or_def date_min_def
  date_max_def digit_val_def digit_chars_def days_in_month_def leap_def nat_of_digits_def
  decimal_int_def decimal_float_def int_to_float_def strip_def is_space_def signed_def
  py_or_def float_or0_def resolve_price_def resolve_commission_def cell_at_def

section \<open>Facts about the stock adjustment\<close>

lemma adjust_stock_frame [simp]:
  "sales (snd (adjust_stock rt s r p q)) = sales s"
  "number_format (snd (adjust_stock rt s r p q)) = number_format s"
  by (simp_all add: adjust_stock_def update_row_def case_prod_beta
      split: list.splits option.splits sum.splits)

lemma adjust_stock_other_tabs:
  "t \<noteq> ''Stock'' \<Longrightarrow> tabs (snd (adjust_stock rt s r p q)) t = tabs s t"
  by (simp add: adjust_stock_def update_row_def case_prod_beta
      split: list.splits option.splits sum.splits)

lemma adjust_stock_cong:
  "tabs s = tabs s' \<Longrightarrow> number_format s = number_format s' \<Longrightarrow>
   tabs (snd (adjust_stock rt s r p q)) = tabs (snd (adjust_stock rt s' r p q))"
  by (simp add: adjust_stock_def update_row_def case_prod_beta
      split: list.splits option.splits sum.splits)

lemma stock_loop_first:
  assumes "k < length body"
    and "cell_at (body ! k) a = P \<and> cell_at (body ! k) b = R"
    and "\<forall>j<k. \<not> (cell_at (body ! j) a = P \<and> cell_at (body ! j) b = R)"
  shows "stock_loop rt fmt n a b c P R qty i body =
           (case parse_qty rt (body ! k) c of
              None \<Rightarrow> Inl ValueError
            | Some cur \<Rightarrow>
                (case float_of_int rt qty of
                   None \<Rightarrow> Inl OverflowError
                 | Some y \<Rightarrow>
                     Inr (Some (i + k, (body ! k @ replicate (n - length (body ! k)) [])
                                         [c := fmt (float_sub rt cur y)]))))"
  using assms
proof (induction body arbitrary: k i)
  case Nil
  then show ?case by simp
next
  case (Cons r rs)
  show ?case
  proof (cases k)
    case 0
    with Cons.prems show ?thesis by (simp split: option.split)
  next
    case (Suc k')
    have nomatch: "\<not> (cell_at r a = P \<and> cell_at r b = R)"
      using Cons.prems(3) Suc by auto
    have "stock_loop rt fmt n a b c P R qty (Suc i) rs =
           (case parse_qty rt (rs ! k') c of
              None \<Rightarrow> Inl ValueError
            | Some cur \<Rightarrow>
                (case float_of_int rt qty of
                   None \<Rightarrow> Inl OverflowError
                 | Some y \<Rightarrow>
                     Inr (Some (Suc i + k', (rs ! k' @ replicate (n - length (rs ! k')) [])
                                         [c := fmt (float_sub rt cur y)]))))"
    proof (rule Cons.IH)
      show "k' < length rs" using Cons.prems(1) Suc by simp
      show "cell_at (rs ! k') a = P \<and> cell_at (rs ! k') b = R"
        using Cons.prems(2) Suc by simp
      show "\<forall>j<k'. \<not> (cell_at (rs ! j) a = P \<and> cell_at (rs ! j) b = R)"
        using Cons.prems(3) Suc by auto
    qed
    with nomatch Suc show ?thesis by (simp split: option.split)
  qed
qed

text \<open>
  The only error of the loop that the handler of line 161 lets through is the
  \<^verbatim>\<open>OverflowError\<close> of converting \<open>qty\<close>; where \<open>qty\<close> converts, nothing leaves the
  adjustment.
\<close>

lemma stock_loop_error:
  "stock_loop rt fmt n a b c P R qty i body = Inl err \<Longrightarrow>
     err = ValueError \<or> (err = OverflowError \<and> float_of_int rt qty = None)"
  by (induction body arbitrary: i) (auto split: if_splits option.splits)

lemma adjust_stock_no_error:
  assumes "float_of_int rt q = Some y"
  shows "fst (adjust_stock rt s rid pid q) = None"
  using assms stock_loop_error [of rt "number_format s" _ _ _ _ "py_str rt (cell_val pid)"
      "py_str rt rid" q 2]
  by (fastforce simp: adjust_stock_def case_prod_beta
      split: list.splits option.splits sum.splits)

lemma adjust_stock_skipped:
  assumes "tabs s ''Stock'' = hdr # body"
    and "index hdr ''product_id'' = Some pid_idx"
    and "index hdr ''reseller_id'' = Some rid_idx"
    and "index hdr ''reseller_qty'' = Some qty_idx"
    and "k < length body"
    and "cell_at (body ! k) pid_idx = py_str rt (cell_val product_id)
         \<and> cell_at (body ! k) rid_idx = py_str rt reseller_id"
    and "\<forall>j<k. \<not> (cell_at (body ! j) pid_idx = py_str rt (cell_val product_id)
                  \<and> cell_at (body ! j) rid_idx = py_str rt reseller_id)"
    and "parse_qty rt (body ! k) qty_idx = None"
  shows "tabs (snd (adjust_stock rt s reseller_id product_id qty)) = tabs s"
    and "accesses (snd (adjust_stock rt s reseller_id product_id qty)) =
           accesses s @ [ReadTab ''Stock'']"
proof -
  have loop: "stock_loop rt (number_format s) (length hdr) pid_idx rid_idx qty_idx
                (py_str rt (cell_val product_id)) (py_str rt reseller_id) qty 2 body =
              Inl ValueError"
    by (simp add: stock_loop_first [OF assms(5,6,7)] assms(8))
  show "tabs (snd (adjust_stock rt s reseller_id product_id qty)) = tabs s"
    using assms(1-4) loop
    by (simp add: adjust_stock_def case_prod_beta)
  show "accesses (snd (adjust_stock rt s reseller_id product_id qty)) =
          accesses s @ [ReadTab ''Stock'']"
    using assms(1-4) loop
    by (simp add: adjust_stock_def case_prod_beta)
qed

lemma adjust_stock_first:
  assumes "tabs s ''Stock'' = hdr # body"
    and "index hdr ''product_id'' = Some pid_idx"
    and "index hdr ''reseller_id'' = Some rid_idx"
    and "index hdr ''reseller_qty'' = Some qty_idx"
    and "truthy rt reseller_id"
    and "k < length body"
    and "cell_at (body ! k) pid_idx = py_str rt (cell_val product_id)
         \<and> cell_at (body ! k) rid_idx = py_str rt reseller_id"
    and "\<forall>j<k. \<not> (cell_at (body ! j) pid_idx = py_str rt (cell_val product_id)
                  \<and> cell_at (body ! j) rid_idx = py_str rt reseller_id)"
    and "parse_qty rt (body ! k) qty_idx = Some cur"
    and "float_of_int rt qty = Some y"
  shows "tabs (snd (adjust_stock rt s reseller_id product_id qty)) =
           (tabs s)(''Stock'' :=
              hdr # body[k := (body ! k @ replicate (length hdr - length (body ! k)) [])
                                [qty_idx := number_format s (float_sub rt cur y)]])"
proof -
  have loop: "stock_loop rt (number_format s) (length hdr) pid_idx rid_idx qty_idx
                (py_str rt (cell_val product_id)) (py_str rt reseller_id) qty 2 body =
              Inr (Some (2 + k, (body ! k @ replicate (length hdr - length (body ! k)) [])
                                  [qty_idx := number_format s (float_sub rt cur y)]))"
    by (simp add: stock_loop_first [OF assms(6,7,8)] assms(9,10))
  show ?thesis
    using assms(1-5) loop
    by (simp add: adjust_stock_def update_row_def case_prod_beta)
qed

lemma floor_minus_one_rat [simp]: "\<lfloor>- 1 :: rat\<rfloor> = - 1"
  using floor_of_int [of "- 1", where ?'a = rat] by simp

lemma str_nat_digit: "n < 10 \<Longrightarrow> str_nat n = [digit_chars ! n]"
  by (simp add: str_nat.simps)

section \<open>Facts about a sale\<close>

lemma pos_sale_ok:
  assumes "py_int rt (get_or p ''qty'' (JInt 1)) = Inr q"
    and "truthy rt (get_or p ''product_id'' JNull) \<or> truthy rt (get_or p ''short_id'' JNull)"
    and "lookup_product_loop rt (to_dicts (tabs s ''Products'')) (get_or p ''product_id'' JNull)
           (get_or p ''short_id'' JNull) = product"
    and "product \<noteq> []"
    and "price_loop rt (to_dicts (tabs s ''ResellerPricing''))
           (get_or p ''reseller_id'' (JStr []))
           (cell_val (get product ''product_id'')) (today e) [] = Inr rp"
    and "resolve_price rt rp product = Inr pr"
    and "float_of_int rt q = Some y"
  shows "pos_sale rt e p s =
          (Inr \<lparr>res_total = float_mul rt pr y,
                res_customer_id = get_or p ''customer_id'' (JStr ''C-000''),
                res_payment_method = get_or p ''payment_method'' (JStr ''cash''),
                res_price = pr, res_commission_pct = resolve_commission rt rp\<rparr>,
           snd (adjust_stock rt
             (append_sale
               (snd (lookup_reseller_price rt
                  (snd (lookup_product rt (snd (lookup_user rt s (get_or p ''user_id'' (JStr []))))
                     (get_or p ''product_id'' JNull) (get_or p ''short_id'' JNull)))
                  (get_or p ''reseller_id'' (JStr [])) (cell_val (get product ''product_id''))
                  (today e)))
               \<lparr>timestamp = now e, sale_user_id = get_or p ''user_id'' (JStr []),
                 sale_person_entity_id =
                   (if fst (lookup_user rt s (get_or p ''user_id'' (JStr []))) = [] then []
                    else get_or (fst (lookup_user rt s (get_or p ''user_id'' (JStr []))))
                           ''person_entity_id'' []),
                 sale_customer_id = get_or p ''customer_id'' (JStr ''C-000''),
                 sale_product_id = get product ''product_id'',
                 sale_short_id = get product ''short_id'',
                 sale_qty = q, sale_price = pr,
                 sale_commission_pct = resolve_commission rt rp,
                 sale_total = float_mul rt pr y,
                 sale_payment_method = get_or p ''payment_method'' (JStr ''cash'')\<rparr>)
             (get_or p ''reseller_id'' (JStr [])) (get product ''product_id'') q))"
proof -
  have a: "fst (lookup_product rt (snd (lookup_user rt s (get_or p ''user_id'' (JStr []))))
              (get_or p ''product_id'' JNull) (get_or p ''short_id'' JNull)) = product"
    using assms(3) by simp
  have b: "fst (lookup_reseller_price rt
              (snd (lookup_product rt (snd (lookup_user rt s (get_or p ''user_id'' (JStr []))))
                 (get_or p ''product_id'' JNull) (get_or p ''short_id'' JNull)))
              (get_or p ''reseller_id'' (JStr [])) (cell_val (get product ''product_id''))
              (today e)) = Inr rp"
    using assms(5) by simp
  note c = adjust_stock_no_error [OF assms(7)]
  show ?thesis
    unfolding pos_sale_def Let_def case_prod_beta
    by (simp only: assms(1,2,4,6,7) a b c sum.case option.case if_True if_False
          fst_conv snd_conv)
qed

lemma pos_sale_overflow:
  assumes "py_int rt (get_or p ''qty'' (JInt 1)) = Inr q"
    and "truthy rt (get_or p ''product_id'' JNull) \<or> truthy rt (get_or p ''short_id'' JNull)"
    and "lookup_product_loop rt (to_dicts (tabs s ''Products'')) (get_or p ''product_id'' JNull)
           (get_or p ''short_id'' JNull) = product"
    and "product \<noteq> []"
    and "price_loop rt (to_dicts (tabs s ''ResellerPricing''))
           (get_or p ''reseller_id'' (JStr []))
           (cell_val (get product ''product_id'')) (today e) [] = Inr rp"
    and "resolve_price rt rp product = Inr pr"
    and "float_of_int rt q = None"
  shows "pos_sale rt e p s =
          (Inl OverflowError,
           snd (lookup_reseller_price rt
                  (snd (lookup_product rt (snd (lookup_user rt s (get_or p ''user_id'' (JStr []))))
                     (get_or p ''product_id'' JNull) (get_or p ''short_id'' JNull)))
                  (get_or p ''reseller_id'' (JStr [])) (cell_val (get product ''product_id''))
                  (today e)))"
proof -
  have a: "fst (lookup_product rt (snd (lookup_user rt s (get_or p ''user_id'' (JStr []))))
              (get_or p ''product_id'' JNull) (get_or p ''short_id'' JNull)) = product"
    using assms(3) by simp
  have b: "fst (lookup_reseller_price rt
              (snd (lookup_product rt (snd (lookup_user rt s (get_or p ''user_id'' (JStr []))))
                 (get_or p ''product_id'' JNull) (get_or p ''short_id'' JNull)))
              (get_or p ''reseller_id'' (JStr [])) (cell_val (get product ''product_id''))
              (today e)) = Inr rp"
    using assms(5) by simp
  show ?thesis
    unfolding pos_sale_def Let_def case_prod_beta
    by (simp only: assms(1,2,4,6,7) a b sum.case option.case if_True if_False
          fst_conv snd_conv)
qed

lemma pos_sale_price_error:
  assumes "py_int rt (get_or p ''qty'' (JInt 1)) = Inr q"
    and "truthy rt (get_or p ''product_id'' JNull) \<or> truthy rt (get_or p ''short_id'' JNull)"
    and "lookup_product_loop rt (to_dicts (tabs s ''Products'')) (get_or p ''product_id'' JNull)
           (get_or p ''short_id'' JNull) = product"
    and "product \<noteq> []"
    and "price_loop rt (to_dicts (tabs s ''ResellerPricing''))
           (get_or p ''reseller_id'' (JStr []))
           (cell_val (get product ''product_id'')) (today e) [] = Inr rp"
    and "resolve_price rt rp product = Inl err"
  shows "fst (pos_sale rt e p s) = Inl err"
proof -
  have a: "fst (lookup_product rt (snd (lookup_user rt s (get_or p ''user_id'' (JStr []))))
              (get_or p ''product_id'' JNull) (get_or p ''short_id'' JNull)) = product"
    using assms(3) by simp
  have b: "fst (lookup_reseller_price rt
              (snd (lookup_product rt (snd (lookup_user rt s (get_or p ''user_id'' (JStr []))))
                 (get_or p ''product_id'' JNull) (get_or p ''short_id'' JNull)))
              (get_or p ''reseller_id'' (JStr [])) (cell_val (get product ''product_id''))
              (today e)) = Inr rp"
    using assms(5) by simp
  show ?thesis
    unfolding pos_sale_def Let_def case_prod_beta
    by (simp only: assms(1,2,4,6) a b sum.case if_True if_False fst_conv snd_conv)
qed

lemma pos_sale_qty_error:
  "py_int rt (get_or p ''qty'' (JInt 1)) = Inl err \<Longrightarrow> pos_sale rt e p s = (Inl err, s)"
  by (simp add: pos_sale_def Let_def)

lemma resolve_price_spec:
  "spec_price rt rp product = Some pr \<Longrightarrow> resolve_price rt rp product = Inr pr"
  by (auto simp: spec_price_def spec_number_def resolve_price_def py_or_def float_or0_def
      split: option.splits if_splits)

lemma resolve_commission_spec:
  "resolve_commission rt rp = spec_commission rt rp"
  by (auto simp: spec_commission_def spec_number_def resolve_commission_def float_or0_def
      split: option.splits)

section \<open>Facts about a checkout\<close>

lemma checkout_loop_not_found:
  assumes "lookup_product_loop rt (to_dicts (tabs s ''Products'')) (get_or it ''product_id'' JNull)
             (get_or it ''short_id'' JNull) = []"
  shows "checkout_loop rt e uid pe rid cid pm (it # its) g w s =
           (Inl (HTTPException 404 ''Product not found''),
            snd (lookup_product rt s (get_or it ''product_id'' JNull)
                   (get_or it ''short_id'' JNull)))"
proof -
  have a: "fst (lookup_product rt s (get_or it ''product_id'' JNull)
                  (get_or it ''short_id'' JNull)) = []"
    using assms by simp
  show ?thesis
    unfolding checkout_loop.simps Let_def case_prod_beta
    by (simp only: a if_True simp_thms)
qed

lemma checkout_loop_step:
  assumes "lookup_product_loop rt (to_dicts (tabs s ''Products'')) (get_or it ''product_id'' JNull)
             (get_or it ''short_id'' JNull) = product"
    and "product \<noteq> []"
    and "py_int rt (get_or it ''qty'' (JInt 1)) = Inr q"
    and "price_loop rt (to_dicts (tabs s ''ResellerPricing'')) rid
           (cell_val (get product ''product_id'')) (today e) [] = Inr rp"
    and "resolve_price rt rp product = Inr pr"
    and "float_of_int rt q = Some y"
  shows "checkout_loop rt e uid pe rid cid pm (it # its) g w s =
           checkout_loop rt e uid pe rid cid pm its (float_add rt g (float_mul rt pr y)) (Suc w)
             (snd (adjust_stock rt
                (append_sale
                   (snd (lookup_reseller_price rt
                      (snd (lookup_product rt s (get_or it ''product_id'' JNull)
                              (get_or it ''short_id'' JNull)))
                      rid (cell_val (get product ''product_id'')) (today e)))
                   \<lparr>timestamp = now e, sale_user_id = uid, sale_person_entity_id = pe,
                     sale_customer_id = cid,
                     sale_product_id = get product ''product_id'',
                     sale_short_id = get product ''short_id'',
                     sale_qty = q, sale_price = pr,
                     sale_commission_pct = resolve_commission rt rp,
                     sale_total = float_mul rt pr y,
                     sale_payment_method = pm\<rparr>)
                rid (get product ''product_id'') q))"
proof -
  have a: "fst (lookup_product rt s (get_or it ''product_id'' JNull)
                  (get_or it ''short_id'' JNull)) = product"
    using assms(1) by simp
  have b: "fst (lookup_reseller_price rt
              (snd (lookup_product rt s (get_or it ''product_id'' JNull)
                      (get_or it ''short_id'' JNull)))
              rid (cell_val (get product ''product_id'')) (today e)) = Inr rp"
    using assms(4) by simp
  note c = adjust_stock_no_error [OF assms(6)]
  show ?thesis
    by (subst checkout_loop.simps(2))
       (simp only: Let_def case_prod_beta assms(2,3,5,6) a b c sum.case option.case if_False
          fst_conv snd_conv)
qed

section \<open>Facts about the price lookup\<close>

lemma best_valid_from:
  assumes "fromisoformat rt [] = None"
    and "fromisoformat rt ''1970-01-01'' = Some date_min"
    and "fromisoformat rt (get_or r ''valid_from'' ''1970-01-01'') = Some x"
  shows "x = valid_from_date rt r"
proof (cases "get r ''valid_from''")
  case None
  with assms(3) have "fromisoformat rt ''1970-01-01'' = Some x"
    by (simp only: get_or_def option.case)
  with assms(2) have "x = date_min"
    by (metis option.inject)
  with None show ?thesis
    by (simp add: get_or_def valid_from_date_def parse_or_def)
next
  case (Some v)
  with assms(3) have v: "fromisoformat rt v = Some x"
    by (simp add: get_or_def)
  with assms(1) have "v \<noteq> []"
    by auto
  with v Some show ?thesis
    by (simp add: get_or_def valid_from_date_def parse_or_def)
qed

lemma price_loop_step:
  "price_loop rt (r # rs) rid pid d best =
     (if candidate rt rid pid d r then
        (if best = [] then price_loop rt rs rid pid d r
         else (case fromisoformat rt (get_or best ''valid_from'' ''1970-01-01'') of
                 None \<Rightarrow> Inl ValueError
               | Some b \<Rightarrow>
                   (if b \<le> valid_from_date rt r then price_loop rt rs rid pid d r
                    else price_loop rt rs rid pid d best)))
      else price_loop rt rs rid pid d best)"
  by (simp add: candidate_def valid_from_date_def Let_def split: option.split)

lemma price_loop_latest:
  assumes "fromisoformat rt [] = None"
    and "fromisoformat rt ''1970-01-01'' = Some date_min"
    and "\<forall>r\<in>set rows. candidate rt rid pid d r \<longrightarrow>
             r \<noteq> [] \<and> fromisoformat rt (get_or r ''valid_from'' ''1970-01-01'') \<noteq> None"
    and "best \<noteq> [] \<longrightarrow> fromisoformat rt (get_or best ''valid_from'' ''1970-01-01'') \<noteq> None"
  shows "\<exists>b. price_loop rt rows rid pid d best = Inr b
           \<and> (b = best \<or> (b \<in> set rows \<and> candidate rt rid pid d b))
           \<and> (best \<noteq> [] \<longrightarrow> valid_from_date rt best \<le> valid_from_date rt b)
           \<and> (\<forall>c\<in>set rows. candidate rt rid pid d c \<longrightarrow>
                  valid_from_date rt c \<le> valid_from_date rt b)
           \<and> (b = [] \<longrightarrow> (\<forall>c\<in>set rows. \<not> candidate rt rid pid d c))"
  using assms(3,4)
proof (induction rows arbitrary: best)
  case Nil
  then show ?case by simp
next
  case (Cons r rs)
  have rs_ok: "\<forall>r\<in>set rs. candidate rt rid pid d r \<longrightarrow>
                 r \<noteq> [] \<and> fromisoformat rt (get_or r ''valid_from'' ''1970-01-01'') \<noteq> None"
    using Cons.prems(1) by simp
  show ?case
  proof (cases "candidate rt rid pid d r")
    case False
    from Cons.IH [OF rs_ok Cons.prems(2)] obtain b where
      b: "price_loop rt rs rid pid d best = Inr b"
         "b = best \<or> (b \<in> set rs \<and> candidate rt rid pid d b)"
         "best \<noteq> [] \<longrightarrow> valid_from_date rt best \<le> valid_from_date rt b"
         "\<forall>c\<in>set rs. candidate rt rid pid d c \<longrightarrow> valid_from_date rt c \<le> valid_from_date rt b"
         "b = [] \<longrightarrow> (\<forall>c\<in>set rs. \<not> candidate rt rid pid d c)"
      by blast
    with False show ?thesis
      by (auto simp: price_loop_step simp del: price_loop.simps)
  next
    case True
    then have r_ok: "r \<noteq> []"
        "fromisoformat rt (get_or r ''valid_from'' ''1970-01-01'') \<noteq> None"
      using Cons.prems(1) by simp_all
    from Cons.IH [OF rs_ok, of r] r_ok obtain b where
      b: "price_loop rt rs rid pid d r = Inr b"
         "b = r \<or> (b \<in> set rs \<and> candidate rt rid pid d b)"
         "valid_from_date rt r \<le> valid_from_date rt b"
         "\<forall>c\<in>set rs. candidate rt rid pid d c \<longrightarrow> valid_from_date rt c \<le> valid_from_date rt b"
      by blast
    have b_ne: "b \<noteq> []"
      using b(2) r_ok(1) rs_ok by auto
    show ?thesis
    proof (cases "best = []")
      case empty: True
      with True b b_ne show ?thesis
        by (auto simp: price_loop_step simp del: price_loop.simps)
    next
      case nonempty: False
      then obtain x where
        x: "fromisoformat rt (get_or best ''valid_from'' ''1970-01-01'') = Some x"
        using Cons.prems(2) by auto
      then have xv: "x = valid_from_date rt best"
        by (rule best_valid_from [OF assms(1,2)])
      show ?thesis
      proof (cases "valid_from_date rt best \<le> valid_from_date rt r")
        case le: True
        then have "valid_from_date rt best \<le> valid_from_date rt b"
          using b(3) by (rule order_trans)
        with True nonempty x xv le b b_ne show ?thesis
          by (auto simp: price_loop_step simp del: price_loop.simps)
      next
        case gt: False
        from Cons.IH [OF rs_ok Cons.prems(2)] obtain b' where
          b': "price_loop rt rs rid pid d best = Inr b'"
              "b' = best \<or> (b' \<in> set rs \<and> candidate rt rid pid d b')"
              "best \<noteq> [] \<longrightarrow> valid_from_date rt best \<le> valid_from_date rt b'"
              "\<forall>c\<in>set rs. candidate rt rid pid d c \<longrightarrow>
                 valid_from_date rt c \<le> valid_from_date rt b'"
          by blast
        have b'_ne: "b' \<noteq> []"
          using b'(2) nonempty rs_ok by auto
        have "valid_from_date rt r \<le> valid_from_date rt best"
          using gt by simp
        moreover have "valid_from_date rt best \<le> valid_from_date rt b'"
          using b'(3) nonempty by simp
        ultimately have "valid_from_date rt r \<le> valid_from_date rt b'"
          by (rule order_trans)
        with True nonempty x xv gt b' b'_ne show ?thesis
          by (auto simp: price_loop_step simp del: price_loop.simps)
      qed
    qed
  qed
qed

text \<open>
  The two failing price tabs of the examples fail under every runtime whose date parser
  refuses the cell in question and reads the calendar dates next to it, not only under
  the example runtime.
\<close>

lemma blank_valid_from_raises:
  assumes "fromisoformat rt [] = None"
    and "fromisoformat rt ''2024-06-01'' = Some (2024, 6, 1)"
    and "fromisoformat rt ''2024-12-31'' = Some (2024, 12, 31)"
  shows "fst (lookup_reseller_price rt shop_blank_from (JStr ''R1'') (JStr ''P1'') (2024, 7, 1)) =
           Inl ValueError"
  using assms
  by (simp add: shop_blank_from_def shop_def to_dicts_def get_def get_or_def parse_or_def
        date_min_def date_max_def)

lemma unparseable_valid_from_raises:
  assumes "fromisoformat rt ''soon'' = None"
    and "fromisoformat rt ''2024-01-01'' = Some (2024, 1, 1)"
  shows "fst (lookup_reseller_price rt shop_soon (JStr ''R1'') (JStr ''P1'') (2024, 3, 1)) =
           Inl ValueError"
  using assms
  by (simp add: shop_soon_def shop_def to_dicts_def get_def get_or_def parse_or_def
        date_min_def date_max_def)

section \<open>Product lookup\<close>

lemma lookup_product_loop_find:
  assumes "truthy rt product_id" and "truthy rt short_id"
  shows "lookup_product_loop rt ps product_id short_id =
           (case List.find (\<lambda>p. cell_val (get p ''product_id'') = product_id
                              \<or> cell_val (get p ''short_id'') = short_id) ps of
              None \<Rightarrow> [] | Some p \<Rightarrow> p)"
  using assms by (induction ps) auto

text \<open>
  C9. When both keys are supplied, \<^verbatim>\<open>lookup_product\<close> returns the first row of the
  Products tab, in scan order, whose \<^verbatim>\<open>product_id\<close> equals the given product id or whose
  \<^verbatim>\<open>short_id\<close> equals the given short id, whichever key matches, and the empty record
  when no row matches either key.
\<close>

theorem lookup_product_scan_order:
  assumes "truthy rt product_id" and "truthy rt short_id"
  shows "fst (lookup_product rt s product_id short_id) =
           (case List.find (\<lambda>p. cell_val (get p ''product_id'') = product_id
                              \<or> cell_val (get p ''short_id'') = short_id)
                   (to_dicts (tabs s ''Products'')) of
              None \<Rightarrow> [] | Some p \<Rightarrow> p)"
  using assms by (simp add: lookup_product_loop_find)

text \<open>
  In the shop the row with short id \<^verbatim>\<open>S9\<close> precedes the row with product id \<^verbatim>\<open>P1\<close>:
  asking for both returns the \<^verbatim>\<open>S9\<close> row.
\<close>

theorem lookup_product_scan_order_witness:
  "truthy example_runtime (JStr ''P1'') \<and> truthy example_runtime (JStr ''S9'')
   \<and> fst (lookup_product example_runtime shop (JStr ''P1'') (JStr ''S9'')) =
       [(''product_id'', ''P2''), (''short_id'', ''S9''), (''base_price'', ''7'')]"
  using lookup_product_scan_order [of example_runtime "JStr ''P1''" "JStr ''S9''" shop]
  by (simp add: eval_defs)

section \<open>Validation of a sale\<close>

text \<open>
  C8, as the code has it. When neither \<^verbatim>\<open>product_id\<close> nor \<^verbatim>\<open>short_id\<close> is supplied
  (absent, null or otherwise false), \<^verbatim>\<open>pos_sale\<close> returns the store exactly as it received
  it, so no tab was read or written, and it fails with the 400 validation error provided
  \<^verbatim>\<open>qty\<close> is absent or \<^verbatim>\<open>int\<close> converts it; a \<^verbatim>\<open>qty\<close> that \<^verbatim>\<open>int\<close> does not convert fails
  the request with the error \<^verbatim>\<open>int\<close> raises on line 132 instead, since that line runs
  before the check of line 134.
\<close>

theorem pos_sale_without_ids:
  assumes "\<not> truthy rt (get_or p ''product_id'' JNull)"
    and "\<not> truthy rt (get_or p ''short_id'' JNull)"
  shows "pos_sale rt e p s =
           ((case py_int rt (get_or p ''qty'' (JInt 1)) of
               Inl err \<Rightarrow> Inl err
             | Inr qty \<Rightarrow> Inl (HTTPException 400 ''product_id or short_id required'')),
            s)"
  using assms by (simp add: pos_sale_def Let_def split: sum.splits)

theorem pos_sale_without_ids_witness:
  "\<not> truthy example_runtime (get_or [] ''product_id'' JNull)
   \<and> \<not> truthy example_runtime (get_or [] ''short_id'' JNull)
   \<and> pos_sale example_runtime spring [] shop =
       (Inl (HTTPException 400 ''product_id or short_id required''), shop)"
  using pos_sale_without_ids [of example_runtime "[]" spring shop]
  by (simp add: get_or_def get_def)

text \<open>
  A request with no product key and \<^verbatim>\<open>qty = "abc"\<close> does not get the validation error: it
  fails with \<^verbatim>\<open>ValueError\<close>.
\<close>

theorem pos_sale_without_ids_bad_qty:
  "fst (pos_sale example_runtime spring [(''qty'', JStr ''abc'')] shop) = Inl ValueError"
  by (simp add: pos_sale_def Let_def eval_defs)

section \<open>Stock listing\<close>

text \<open>
  C4. \<^verbatim>\<open>get_stock\<close> for user \<^verbatim>\<open>U1\<close>, whose reseller is \<^verbatim>\<open>R1\<close>: line 121 takes the user's
  \<^verbatim>\<open>user_id\<close> as the reseller to filter by, so the two stock rows of \<^verbatim>\<open>R1\<close> are not
  returned; the result is empty.
\<close>

theorem get_stock_filters_by_user_id:
  "fst (get_stock rt shop None (Some ''U1'')) = []"
  by (simp add: get_stock_def Let_def case_prod_beta eval_defs)

section \<open>Price resolution\<close>

text \<open>
  C1. Two price rows of (\<^verbatim>\<open>R1\<close>, \<^verbatim>\<open>P1\<close>) are valid on 2024-07-01: one with a blank
  \<^verbatim>\<open>valid_from\<close>, one starting 2024-06-01. The second has the latest \<^verbatim>\<open>valid_from\<close>, yet
  \<^verbatim>\<open>lookup_reseller_price\<close> raises \<^verbatim>\<open>ValueError\<close>: line 71 parses the blank cell of the
  current best row without the guard of lines 64-66.
\<close>

theorem lookup_reseller_price_blank_best_raises:
  "fst (lookup_reseller_price example_runtime shop_blank_from (JStr ''R1'') (JStr ''P1'') (2024, 7, 1)) =
     Inl ValueError"
  by (rule blank_valid_from_raises) (simp_all add: eval_defs)

text \<open>
  What the price lookup does guarantee. Take a runtime that refuses the empty string as
  a date and reads \<^verbatim>\<open>1970-01-01\<close> as that date. If every row that passes the test of lines
  60-70 is a non-empty record whose \<^verbatim>\<open>valid_from\<close> is a date that \<^verbatim>\<open>fromisoformat\<close> accepts
  (or the column is missing altogether), the lookup does not raise: it returns a row that
  passes the test and whose \<^verbatim>\<open>valid_from\<close> is the latest among such rows, and the empty
  record when no row passes the test.
\<close>

theorem lookup_reseller_price_latest:
  assumes "fromisoformat rt [] = None"
    and "fromisoformat rt ''1970-01-01'' = Some date_min"
    and "\<forall>r\<in>set (to_dicts (tabs s ''ResellerPricing'')).
             candidate rt rid pid d r \<longrightarrow>
               r \<noteq> [] \<and> fromisoformat rt (get_or r ''valid_from'' ''1970-01-01'') \<noteq> None"
  shows "case fst (lookup_reseller_price rt s rid pid d) of
           Inl err \<Rightarrow> False
         | Inr b \<Rightarrow>
             (if \<exists>r\<in>set (to_dicts (tabs s ''ResellerPricing'')). candidate rt rid pid d r
              then b \<in> set (to_dicts (tabs s ''ResellerPricing''))
                   \<and> candidate rt rid pid d b
                   \<and> (\<forall>c\<in>set (to_dicts (tabs s ''ResellerPricing'')).
                         candidate rt rid pid d c \<longrightarrow>
                           valid_from_date rt c \<le> valid_from_date rt b)
              else b = [])"
proof -
  let ?rows = "to_dicts (tabs s ''ResellerPricing'')"
  from price_loop_latest [OF assms, of "[]"] obtain b where
    b: "price_loop rt ?rows rid pid d [] = Inr b"
       "b = [] \<or> (b \<in> set ?rows \<and> candidate rt rid pid d b)"
       "\<forall>c\<in>set ?rows. candidate rt rid pid d c \<longrightarrow> valid_from_date rt c \<le> valid_from_date rt b"
       "b = [] \<longrightarrow> (\<forall>c\<in>set ?rows. \<not> candidate rt rid pid d c)"
    by auto
  then show ?thesis
    by auto
qed

text \<open>
  In the shop both price rows are valid on 2024-07-01 and the row starting 2024-06-01 is
  returned; on 2025-01-01 neither is and the result is empty.
\<close>

theorem lookup_reseller_price_latest_witness:
  "fst (lookup_reseller_price example_runtime shop (JStr ''R1'') (JStr ''P1'') (2024, 7, 1)) =
     Inr summer_price
   \<and> candidate example_runtime (JStr ''R1'') (JStr ''P1'') (2024, 7, 1) spring_price
   \<and> candidate example_runtime (JStr ''R1'') (JStr ''P1'') (2024, 7, 1) summer_price
   \<and> valid_from_date example_runtime spring_price \<le> valid_from_date example_runtime summer_price
   \<and> fst (lookup_reseller_price example_runtime shop (JStr ''R1'') (JStr ''P1'') (2025, 1, 1)) = Inr []"
proof -
  have h1: "fromisoformat example_runtime [] = None"
    by simp
  have h2: "fromisoformat example_runtime ''1970-01-01'' = Some date_min"
    by (simp add: eval_defs)
  have h3: "\<forall>r\<in>set (to_dicts (tabs shop ''ResellerPricing'')).
             candidate example_runtime (JStr ''R1'') (JStr ''P1'') (2024, 7, 1) r \<longrightarrow>
               r \<noteq> [] \<and> fromisoformat example_runtime (get_or r ''valid_from'' ''1970-01-01'') \<noteq> None"
    by (simp add: eval_defs)
  show ?thesis
    using lookup_reseller_price_latest [OF h1 h2 h3]
    by (simp add: eval_defs candidate_def valid_from_date_def)
qed

section \<open>Stock adjustment\<close>

text \<open>
  C5. Take a sale that goes through, with a reseller id supplied, on a Stock tab that has
  the three columns. The store it leaves behind has every tab as before except Stock, and
  in Stock exactly one row differs: the first row \<open>k\<close>, in scan order, whose
  \<^verbatim>\<open>product_id\<close> and \<^verbatim>\<open>reseller_id\<close> cells equal the strings of the sale's product and
  reseller. That row is padded to the header's width and its quantity cell shows
  \<^verbatim>\<open>cur - qty\<close>, where \<open>cur\<close> is the number \<^verbatim>\<open>float\<close> reads in the cell, and \<^verbatim>\<open>0.0\<close> when
  the cell is empty or missing; the difference is written as it is, with no floor at
  zero. Every other row, a later duplicate included, stays as it was.
\<close>

theorem pos_sale_adjusts_first_match:
  assumes "py_int rt (get_or p ''qty'' (JInt 1)) = Inr q"
    and "truthy rt (get_or p ''product_id'' JNull) \<or> truthy rt (get_or p ''short_id'' JNull)"
    and "lookup_product_loop rt (to_dicts (tabs s ''Products'')) (get_or p ''product_id'' JNull)
           (get_or p ''short_id'' JNull) = product"
    and "product \<noteq> []"
    and "price_loop rt (to_dicts (tabs s ''ResellerPricing''))
           (get_or p ''reseller_id'' (JStr []))
           (cell_val (get product ''product_id'')) (today e) [] = Inr rp"
    and "resolve_price rt rp product = Inr pr"
    and "float_of_int rt q = Some y"
    and "truthy rt (get_or p ''reseller_id'' (JStr []))"
    and "tabs s ''Stock'' = hdr # body"
    and "index hdr ''product_id'' = Some pid_idx"
    and "index hdr ''reseller_id'' = Some rid_idx"
    and "index hdr ''reseller_qty'' = Some qty_idx"
    and "k < length body"
    and "cell_at (body ! k) pid_idx = py_str rt (cell_val (get product ''product_id''))
         \<and> cell_at (body ! k) rid_idx = py_str rt (get_or p ''reseller_id'' (JStr []))"
    and "\<forall>j<k. \<not> (cell_at (body ! j) pid_idx = py_str rt (cell_val (get product ''product_id''))
                  \<and> cell_at (body ! j) rid_idx = py_str rt (get_or p ''reseller_id'' (JStr [])))"
    and "if qty_idx < length (body ! k) \<and> body ! k ! qty_idx \<noteq> []
         then float_of_str rt (body ! k ! qty_idx) = Some cur
         else cur = float_zero rt"
  shows "tabs (snd (pos_sale rt e p s)) =
           (tabs s)(''Stock'' :=
              hdr # body[k := (body ! k @ replicate (length hdr - length (body ! k)) [])
                                [qty_idx := number_format s (float_sub rt cur y)]])"
proof -
  let ?rid = "get_or p ''reseller_id'' (JStr [])"
  let ?pid = "get product ''product_id''"
  have pq: "parse_qty rt (body ! k) qty_idx = Some cur"
    using assms(16) by (simp add: parse_qty_def split: if_splits)
  note run = pos_sale_ok [OF assms(1-7)]
  have adjusted: "tabs (snd (adjust_stock rt s' ?rid ?pid q)) =
           (tabs s')(''Stock'' :=
              hdr # body[k := (body ! k @ replicate (length hdr - length (body ! k)) [])
                                [qty_idx := number_format s' (float_sub rt cur y)]])"
    if "tabs s' = tabs s" for s' :: "'a store"
    by (rule adjust_stock_first [OF _ assms(10-12) assms(8) assms(13-15) pq assms(7)])
       (simp only: that assms(9))
  show ?thesis
    by (simp add: run adjusted)
qed

text \<open>
  In the shop, selling three \<^verbatim>\<open>P1\<close> for \<^verbatim>\<open>R1\<close> takes the first matching row from 2 to -1
  and leaves the duplicate row with 9 alone. Where the first matching row stops before
  its quantity cell, the row is padded and the cell shows 0 - 3.
\<close>

theorem pos_sale_adjusts_first_match_witness:
  "tabs (snd (pos_sale example_runtime spring sale_request shop)) ''Stock'' =
     [[''product_id'', ''reseller_id'', ''reseller_qty''],
      [''P1'', ''R1'', ''-1''],
      [''P1'', ''R2'', ''7''],
      [''P1'', ''R1'', ''9'']]
   \<and> tabs (snd (pos_sale example_runtime spring sale_request shop_no_qty)) ''Stock'' =
     [[''product_id'', ''reseller_id'', ''reseller_qty''],
      [''P1'', ''R1'', ''-3''],
      [''P1'', ''R1'', ''9'']]"
proof -
  let ?hdr = "[''product_id'', ''reseller_id'', ''reseller_qty'']"
  let ?body = "[[''P1'', ''R1'', ''2''], [''P1'', ''R2'', ''7''], [''P1'', ''R1'', ''9'']]"
  let ?short = "[[''P1'', ''R1''], [''P1'', ''R1'', ''9'']]"
  have h1: "py_int example_runtime (get_or sale_request ''qty'' (JInt 1)) = Inr 3"
    by (simp add: eval_defs)
  have h2: "truthy example_runtime (get_or sale_request ''product_id'' JNull)
            \<or> truthy example_runtime (get_or sale_request ''short_id'' JNull)"
    by (simp add: eval_defs)
  have h3: "lookup_product_loop example_runtime (to_dicts (tabs shop ''Products''))
              (get_or sale_request ''product_id'' JNull)
              (get_or sale_request ''short_id'' JNull) = p1_row"
    by (simp add: eval_defs)
  have h3': "lookup_product_loop example_runtime (to_dicts (tabs shop_no_qty ''Products''))
              (get_or sale_request ''product_id'' JNull)
              (get_or sale_request ''short_id'' JNull) = p1_row"
    by (simp add: eval_defs)
  have h4: "p1_row \<noteq> []"
    by (simp add: eval_defs)
  have h5: "price_loop example_runtime (to_dicts (tabs shop ''ResellerPricing''))
              (get_or sale_request ''reseller_id'' (JStr []))
              (cell_val (get p1_row ''product_id'')) (today spring) [] = Inr spring_price"
    by (simp add: eval_defs)
  have h5': "price_loop example_runtime (to_dicts (tabs shop_no_qty ''ResellerPricing''))
              (get_or sale_request ''reseller_id'' (JStr []))
              (cell_val (get p1_row ''product_id'')) (today spring) [] = Inr spring_price"
    by (simp add: eval_defs)
  have h6: "resolve_price example_runtime spring_price p1_row = Inr 10"
    by (simp add: eval_defs)
  have h7: "float_of_int example_runtime 3 = Some 3"
    by (simp add: eval_defs)
  have h8: "truthy example_runtime (get_or sale_request ''reseller_id'' (JStr []))"
    by (simp add: eval_defs)
  have h9: "tabs shop ''Stock'' = ?hdr # ?body"
    by (simp add: eval_defs)
  have h9': "tabs shop_no_qty ''Stock'' = ?hdr # ?short"
    by (simp add: eval_defs)
  have h10: "index ?hdr ''product_id'' = Some 0"
    by simp
  have h11: "index ?hdr ''reseller_id'' = Some 1"
    by simp
  have h12: "index ?hdr ''reseller_qty'' = Some 2"
    by simp
  have h13: "0 < length ?body"
    by simp
  have h13': "0 < length ?short"
    by simp
  have h14: "cell_at (?body ! 0) 0 = py_str example_runtime (cell_val (get p1_row ''product_id''))
             \<and> cell_at (?body ! 0) 1 =
                 py_str example_runtime (get_or sale_request ''reseller_id'' (JStr []))"
    by (simp add: eval_defs)
  have h14': "cell_at (?short ! 0) 0 = py_str example_runtime (cell_val (get p1_row ''product_id''))
             \<and> cell_at (?short ! 0) 1 =
                 py_str example_runtime (get_or sale_request ''reseller_id'' (JStr []))"
    by (simp add: eval_defs)
  have h15: "\<forall>j<0. \<not> (cell_at (?body ! j) 0 =
                          py_str example_runtime (cell_val (get p1_row ''product_id''))
               \<and> cell_at (?body ! j) 1 =
                   py_str example_runtime (get_or sale_request ''reseller_id'' (JStr [])))"
    by simp
  have h15': "\<forall>j<0. \<not> (cell_at (?short ! j) 0 =
                          py_str example_runtime (cell_val (get p1_row ''product_id''))
               \<and> cell_at (?short ! j) 1 =
                   py_str example_runtime (get_or sale_request ''reseller_id'' (JStr [])))"
    by simp
  have h16: "if 2 < length (?body ! 0) \<and> ?body ! 0 ! 2 \<noteq> []
             then float_of_str example_runtime (?body ! 0 ! 2) = Some 2
             else 2 = float_zero example_runtime"
    by (simp add: eval_defs)
  have h16': "if 2 < length (?short ! 0) \<and> ?short ! 0 ! 2 \<noteq> []
             then float_of_str example_runtime (?short ! 0 ! 2) = Some 0
             else 0 = float_zero example_runtime"
    by simp
  show ?thesis
    using pos_sale_adjusts_first_match
            [OF h1 h2 h3 h4 h5 h6 h7 h8 h9 h10 h11 h12 h13 h14 h15 h16]
          pos_sale_adjusts_first_match
            [OF h1 h2 h3' h4 h5' h6 h7 h8 h9' h10 h11 h12 h13' h14' h15' h16']
    by (simp add: eval_defs str_nat_digit)
qed

section \<open>The recorded sale\<close>

text \<open>
  C7, as the code has it. Take a sale whose quantity is the integer \<open>q\<close>, whose product
  is found and whose price resolves to \<open>pr\<close> with commission \<open>resolve_commission rt rp\<close>,
  \<open>q\<close> being an integer that Python converts to a float, as line 146 has to for
  \<^verbatim>\<open>price * qty\<close>. The sale answers with the total \<^verbatim>\<open>price * qty\<close>, the float product of
  \<open>pr\<close> and \<open>q\<close>, and appends exactly one row to the Sales log, holding these same values
  of quantity, price, commission and total.
\<close>

theorem pos_sale_total:
  assumes "py_int rt (get_or p ''qty'' (JInt 1)) = Inr q"
    and "truthy rt (get_or p ''product_id'' JNull) \<or> truthy rt (get_or p ''short_id'' JNull)"
    and "lookup_product_loop rt (to_dicts (tabs s ''Products'')) (get_or p ''product_id'' JNull)
           (get_or p ''short_id'' JNull) = product"
    and "product \<noteq> []"
    and "price_loop rt (to_dicts (tabs s ''ResellerPricing''))
           (get_or p ''reseller_id'' (JStr []))
           (cell_val (get product ''product_id'')) (today e) [] = Inr rp"
    and "resolve_price rt rp product = Inr pr"
    and "float_of_int rt q = Some y"
  shows "fst (pos_sale rt e p s) =
           Inr \<lparr>res_total = float_mul rt pr y,
                res_customer_id = get_or p ''customer_id'' (JStr ''C-000''),
                res_payment_method = get_or p ''payment_method'' (JStr ''cash''),
                res_price = pr, res_commission_pct = resolve_commission rt rp\<rparr>
         \<and> sales (snd (pos_sale rt e p s)) =
             sales s @
             [\<lparr>timestamp = now e, sale_user_id = get_or p ''user_id'' (JStr []),
               sale_person_entity_id =
                 (if fst (lookup_user rt s (get_or p ''user_id'' (JStr []))) = [] then []
                  else get_or (fst (lookup_user rt s (get_or p ''user_id'' (JStr []))))
                         ''person_entity_id'' []),
               sale_customer_id = get_or p ''customer_id'' (JStr ''C-000''),
               sale_product_id = get product ''product_id'',
               sale_short_id = get product ''short_id'',
               sale_qty = q, sale_price = pr,
               sale_commission_pct = resolve_commission rt rp,
               sale_total = float_mul rt pr y,
               sale_payment_method = get_or p ''payment_method'' (JStr ''cash'')\<rparr>]"
  by (simp add: pos_sale_ok [OF assms])

text \<open>
  Three \<^verbatim>\<open>P1\<close> at the price 10.0 with commission 5.0: the total is 30, and one row is
  appended with 3, 10, 5 and 30.
\<close>

theorem pos_sale_total_witness:
  "py_int example_runtime (get_or sale_request ''qty'' (JInt 1)) = Inr 3
   \<and> resolve_price example_runtime spring_price p1_row = Inr 10
   \<and> resolve_commission example_runtime spring_price = 5
   \<and> float_of_int example_runtime 3 = Some 3
   \<and> fst (pos_sale example_runtime spring sale_request shop) =
       Inr \<lparr>res_total = 30, res_customer_id = JStr ''C-000'',
            res_payment_method = JStr ''cash'', res_price = 10, res_commission_pct = 5\<rparr>
   \<and> sales (snd (pos_sale example_runtime spring sale_request shop)) =
       [\<lparr>timestamp = ''2024-03-01T10:00:00'', sale_user_id = JStr ''U1'',
         sale_person_entity_id = ''person.anna'', sale_customer_id = JStr ''C-000'',
         sale_product_id = Some ''P1'', sale_short_id = Some ''S1'',
         sale_qty = 3, sale_price = 10, sale_commission_pct = 5, sale_total = 30,
         sale_payment_method = JStr ''cash''\<rparr>]"
proof -
  have h1: "py_int example_runtime (get_or sale_request ''qty'' (JInt 1)) = Inr 3"
    by (simp add: eval_defs)
  have h2: "truthy example_runtime (get_or sale_request ''product_id'' JNull)
            \<or> truthy example_runtime (get_or sale_request ''short_id'' JNull)"
    by (simp add: eval_defs)
  have h3: "lookup_product_loop example_runtime (to_dicts (tabs shop ''Products''))
              (get_or sale_request ''product_id'' JNull)
              (get_or sale_request ''short_id'' JNull) = p1_row"
    by (simp add: eval_defs)
  have h4: "p1_row \<noteq> []"
    by (simp add: eval_defs)
  have h5: "price_loop example_runtime (to_dicts (tabs shop ''ResellerPricing''))
              (get_or sale_request ''reseller_id'' (JStr []))
              (cell_val (get p1_row ''product_id'')) (today spring) [] = Inr spring_price"
    by (simp add: eval_defs)
  have h6: "resolve_price example_runtime spring_price p1_row = Inr 10"
    by (simp add: eval_defs)
  have h7: "float_of_int example_runtime 3 = Some 3"
    by (simp add: eval_defs)
  have h8: "resolve_commission example_runtime spring_price = 5"
    by (simp add: eval_defs)
  show ?thesis
    using h1 h6 h7 h8 pos_sale_total [OF h1 h2 h3 h4 h5 h6 h7]
    by (simp add: eval_defs)
qed

text \<open>
  The same sale of \<^verbatim>\<open>P1\<close> at the price 10.0 with the quantity ten to the power 400, an
  integer beyond the range of a float: line 146 raises \<^verbatim>\<open>OverflowError\<close>, the sale returns
  no total and no row is appended.
\<close>

theorem pos_sale_huge_qty_fails:
  "fst (pos_sale example_runtime spring huge_request shop) = Inl OverflowError
   \<and> sales (snd (pos_sale example_runtime spring huge_request shop)) = []"
  by (simp add: pos_sale_def Let_def case_prod_beta eval_defs)

text \<open>
  So it is for every runtime and every quantity that does not convert: the sale fails
  with \<^verbatim>\<open>OverflowError\<close>, and neither the Sales log nor a tab has changed.
\<close>

lemma pos_sale_overflow_unrecorded:
  assumes "py_int rt (get_or p ''qty'' (JInt 1)) = Inr q"
    and "truthy rt (get_or p ''product_id'' JNull) \<or> truthy rt (get_or p ''short_id'' JNull)"
    and "lookup_product_loop rt (to_dicts (tabs s ''Products'')) (get_or p ''product_id'' JNull)
           (get_or p ''short_id'' JNull) = product"
    and "product \<noteq> []"
    and "price_loop rt (to_dicts (tabs s ''ResellerPricing''))
           (get_or p ''reseller_id'' (JStr []))
           (cell_val (get product ''product_id'')) (today e) [] = Inr rp"
    and "resolve_price rt rp product = Inr pr"
    and "float_of_int rt q = None"
  shows "fst (pos_sale rt e p s) = Inl OverflowError
         \<and> sales (snd (pos_sale rt e p s)) = sales s
         \<and> tabs (snd (pos_sale rt e p s)) = tabs s"
  by (simp add: pos_sale_overflow [OF assms])

section \<open>Checkout\<close>



section \<open>Numeric fields of a sale\<close>

text \<open>
  C2, as the code has it. Take a sale whose product is found and whose price lookup
  returns \<open>rp\<close>. A \<^verbatim>\<open>qty\<close> that \<^verbatim>\<open>int\<close> cannot convert does not resolve to a default: the
  request fails with the error of \<^verbatim>\<open>int\<close>, the store untouched. For a \<^verbatim>\<open>qty\<close> that
  converts, within the range of a float, the sale answers with the price and the
  commission of the specification: the number in the \<^verbatim>\<open>price\<close> cell of \<open>rp\<close>, and when that
  cell is missing, empty or refused by \<^verbatim>\<open>float\<close>, the product's \<^verbatim>\<open>base_price\<close>, or 0 when
  that is missing or empty; the number in the \<^verbatim>\<open>commission_pct\<close> cell, and 0 when that cell
  is missing, empty or refused by \<^verbatim>\<open>float\<close>. The statement covers every \<^verbatim>\<open>base_price\<close> that
  is missing, empty or a number; a \<^verbatim>\<open>base_price\<close> that \<^verbatim>\<open>float\<close> refuses meets the
  unguarded parse of line 143 and is left out of it.
\<close>

theorem pos_sale_numeric_fields:
  assumes "truthy rt (get_or p ''product_id'' JNull) \<or> truthy rt (get_or p ''short_id'' JNull)"
    and "lookup_product_loop rt (to_dicts (tabs s ''Products'')) (get_or p ''product_id'' JNull)
           (get_or p ''short_id'' JNull) = product"
    and "product \<noteq> []"
    and "price_loop rt (to_dicts (tabs s ''ResellerPricing''))
           (get_or p ''reseller_id'' (JStr []))
           (cell_val (get product ''product_id'')) (today e) [] = Inr rp"
  shows "case py_int rt (get_or p ''qty'' (JInt 1)) of
           Inl err \<Rightarrow> pos_sale rt e p s = (Inl err, s)
         | Inr q \<Rightarrow>
             (\<forall>pr y. spec_price rt rp product = Some pr \<longrightarrow> float_of_int rt q = Some y \<longrightarrow>
                fst (pos_sale rt e p s) =
                  Inr \<lparr>res_total = float_mul rt pr y,
                       res_customer_id = get_or p ''customer_id'' (JStr ''C-000''),
                       res_payment_method = get_or p ''payment_method'' (JStr ''cash''),
                       res_price = pr,
                       res_commission_pct = spec_commission rt rp\<rparr>)"
proof (cases "py_int rt (get_or p ''qty'' (JInt 1))")
  case (Inl err)
  then show ?thesis by (simp add: pos_sale_qty_error)
next
  case (Inr q)
  have "fst (pos_sale rt e p s) =
          Inr \<lparr>res_total = float_mul rt pr y,
               res_customer_id = get_or p ''customer_id'' (JStr ''C-000''),
               res_payment_method = get_or p ''payment_method'' (JStr ''cash''),
               res_price = pr,
               res_commission_pct = spec_commission rt rp\<rparr>"
    if "spec_price rt rp product = Some pr" and "float_of_int rt q = Some y" for pr y
    using pos_sale_ok [OF Inr assms resolve_price_spec [OF that(1)] that(2)]
    by (simp add: resolve_commission_spec)
  with Inr show ?thesis by simp
qed

text \<open>
  In the shop whose price row reads \<^verbatim>\<open>n/a\<close> and \<^verbatim>\<open>x\<close>, three \<^verbatim>\<open>P1\<close> are sold at the base
  price 12 with commission 0.
\<close>

theorem pos_sale_numeric_fields_witness:
  "spec_number example_runtime (get bad_price ''price'') = None
   \<and> spec_number example_runtime (get bad_price ''commission_pct'') = None
   \<and> spec_price example_runtime bad_price p1_row = Some 12
   \<and> spec_commission example_runtime bad_price = 0
   \<and> fst (pos_sale example_runtime spring sale_request shop_bad_price) =
       Inr \<lparr>res_total = 36, res_customer_id = JStr ''C-000'',
            res_payment_method = JStr ''cash'', res_price = 12, res_commission_pct = 0\<rparr>"
proof -
  have h1: "truthy example_runtime (get_or sale_request ''product_id'' JNull)
            \<or> truthy example_runtime (get_or sale_request ''short_id'' JNull)"
    by (simp add: eval_defs)
  have h2: "lookup_product_loop example_runtime (to_dicts (tabs shop_bad_price ''Products''))
              (get_or sale_request ''product_id'' JNull)
              (get_or sale_request ''short_id'' JNull) = p1_row"
    by (simp add: eval_defs)
  have h3: "p1_row \<noteq> []"
    by (simp add: eval_defs)
  have h4: "price_loop example_runtime (to_dicts (tabs shop_bad_price ''ResellerPricing''))
              (get_or sale_request ''reseller_id'' (JStr []))
              (cell_val (get p1_row ''product_id'')) (today spring) [] = Inr bad_price"
    by (simp add: eval_defs)
  have n1: "spec_number example_runtime (get bad_price ''price'') = None"
    by (simp add: spec_number_def eval_defs)
  have n2: "spec_number example_runtime (get bad_price ''commission_pct'') = None"
    by (simp add: spec_number_def eval_defs)
  have b: "spec_price example_runtime bad_price p1_row = Some 12"
    by (simp add: spec_price_def spec_number_def eval_defs)
  have c: "spec_commission example_runtime bad_price = 0"
    by (simp add: spec_commission_def spec_number_def eval_defs)
  have q: "py_int example_runtime (get_or sale_request ''qty'' (JInt 1)) = Inr 3"
    by (simp add: eval_defs)
  have y: "float_of_int example_runtime 3 = Some 3"
    by (simp add: eval_defs)
  show ?thesis
    using pos_sale_numeric_fields [OF h1 h2 h3 h4] n1 n2 b c q y
    by (simp add: sale_request_def get_or_def get_def)
qed

text \<open>
  A sale of \<^verbatim>\<open>P1\<close> with \<^verbatim>\<open>qty = "three"\<close> is not given a default quantity: it fails with
  \<^verbatim>\<open>ValueError\<close> on line 132, before any tab is read.
\<close>

theorem pos_sale_bad_qty_fails:
  "pos_sale example_runtime spring [(''product_id'', JStr ''P1''), (''qty'', JStr ''three'')] shop =
     (Inl ValueError, shop)"
  by (simp add: pos_sale_def Let_def eval_defs)

section \<open>A stock quantity that is not a number\<close>

text \<open>
  C10. Take a sale that goes through, on a Stock tab with the three columns whose first
  matching row \<open>k\<close> has a \<^verbatim>\<open>reseller_qty\<close> cell that is not empty and that \<^verbatim>\<open>float\<close> refuses.
  The loop of lines 154-160 ends in the \<^verbatim>\<open>ValueError\<close> of \<^verbatim>\<open>float\<close>, the handler of line 161
  swallows it, so every tab is left as it was, while the sale answers with its total and
  its row is in the Sales log. The calls made to the sheet end with the read of the Stock
  tab: no row is written back.
\<close>

theorem pos_sale_unparseable_stock_qty:
  assumes "py_int rt (get_or p ''qty'' (JInt 1)) = Inr q"
    and "truthy rt (get_or p ''product_id'' JNull) \<or> truthy rt (get_or p ''short_id'' JNull)"
    and "lookup_product_loop rt (to_dicts (tabs s ''Products'')) (get_or p ''product_id'' JNull)
           (get_or p ''short_id'' JNull) = product"
    and "product \<noteq> []"
    and "price_loop rt (to_dicts (tabs s ''ResellerPricing''))
           (get_or p ''reseller_id'' (JStr []))
           (cell_val (get product ''product_id'')) (today e) [] = Inr rp"
    and "resolve_price rt rp product = Inr pr"
    and "float_of_int rt q = Some y"
    and "tabs s ''Stock'' = hdr # body"
    and "index hdr ''product_id'' = Some pid_idx"
    and "index hdr ''reseller_id'' = Some rid_idx"
    and "index hdr ''reseller_qty'' = Some qty_idx"
    and "k < length body"
    and "cell_at (body ! k) pid_idx = py_str rt (cell_val (get product ''product_id''))
         \<and> cell_at (body ! k) rid_idx = py_str rt (get_or p ''reseller_id'' (JStr []))"
    and "\<forall>j<k. \<not> (cell_at (body ! j) pid_idx = py_str rt (cell_val (get product ''product_id''))
                  \<and> cell_at (body ! j) rid_idx = py_str rt (get_or p ''reseller_id'' (JStr [])))"
    and "qty_idx < length (body ! k)"
    and "body ! k ! qty_idx \<noteq> []"
    and "float_of_str rt (body ! k ! qty_idx) = None"
  shows "stock_loop rt (number_format s) (length hdr) pid_idx rid_idx qty_idx
           (py_str rt (cell_val (get product ''product_id'')))
           (py_str rt (get_or p ''reseller_id'' (JStr []))) q 2 body = Inl ValueError
         \<and> fst (pos_sale rt e p s) =
             Inr \<lparr>res_total = float_mul rt pr y,
                  res_customer_id = get_or p ''customer_id'' (JStr ''C-000''),
                  res_payment_method = get_or p ''payment_method'' (JStr ''cash''),
                  res_price = pr, res_commission_pct = resolve_commission rt rp\<rparr>
         \<and> tabs (snd (pos_sale rt e p s)) = tabs s
         \<and> length (sales (snd (pos_sale rt e p s))) = Suc (length (sales s))
         \<and> accesses (snd (pos_sale rt e p s)) =
             accesses s
             @ (if truthy rt (get_or p ''user_id'' (JStr [])) then [ReadTab ''Users''] else [])
             @ [ReadTab ''Products'', ReadTab ''ResellerPricing'', AppendRow ''Sales'',
                ReadTab ''Stock'']"
proof -
  let ?rid = "get_or p ''reseller_id'' (JStr [])"
  let ?pid = "get product ''product_id''"
  have pq: "parse_qty rt (body ! k) qty_idx = None"
    using assms(15-17) by (simp add: parse_qty_def)
  have raised: "stock_loop rt (number_format s) (length hdr) pid_idx rid_idx qty_idx
                  (py_str rt (cell_val ?pid)) (py_str rt ?rid) q 2 body = Inl ValueError"
    by (simp add: stock_loop_first [OF assms(12-14)] pq)
  note run = pos_sale_ok [OF assms(1-7)]
  have kept: "tabs (snd (adjust_stock rt s' ?rid ?pid q)) = tabs s'"
    if "tabs s' = tabs s" for s' :: "'a store"
    by (rule adjust_stock_skipped(1) [OF _ assms(9-14) pq]) (simp only: that assms(8))
  have read: "accesses (snd (adjust_stock rt s' ?rid ?pid q)) = accesses s' @ [ReadTab ''Stock'']"
    if "tabs s' = tabs s" for s' :: "'a store"
    by (rule adjust_stock_skipped(2) [OF _ assms(9-14) pq]) (simp only: that assms(8))
  have result: "fst (pos_sale rt e p s) =
             Inr \<lparr>res_total = float_mul rt pr y,
                  res_customer_id = get_or p ''customer_id'' (JStr ''C-000''),
                  res_payment_method = get_or p ''payment_method'' (JStr ''cash''),
                  res_price = pr, res_commission_pct = resolve_commission rt rp\<rparr>"
    by (simp add: run)
  have tabs_kept: "tabs (snd (pos_sale rt e p s)) = tabs s"
    by (simp add: run kept)
  have one_row: "length (sales (snd (pos_sale rt e p s))) = Suc (length (sales s))"
    by (simp add: run)
  have calls: "accesses (snd (pos_sale rt e p s)) =
             accesses s
             @ (if truthy rt (get_or p ''user_id'' (JStr [])) then [ReadTab ''Users''] else [])
             @ [ReadTab ''Products'', ReadTab ''ResellerPricing'', AppendRow ''Sales'',
                ReadTab ''Stock'']"
    by (simp add: run read)
  from raised result tabs_kept one_row calls show ?thesis by simp
qed

text \<open>
  In the shop whose first stock row of (\<^verbatim>\<open>P1\<close>, \<^verbatim>\<open>R1\<close>) reads \<^verbatim>\<open>n/a\<close>, the sale of three
  \<^verbatim>\<open>P1\<close> succeeds and neither that row nor the later row with 9 is changed.
\<close>

theorem pos_sale_unparseable_stock_qty_witness:
  "float_of_str example_runtime ''n/a'' = None
   \<and> fst (pos_sale example_runtime spring sale_request shop_bad_qty) =
       Inr \<lparr>res_total = 30, res_customer_id = JStr ''C-000'',
            res_payment_method = JStr ''cash'', res_price = 10, res_commission_pct = 5\<rparr>
   \<and> tabs (snd (pos_sale example_runtime spring sale_request shop_bad_qty)) ''Stock'' =
       [[''product_id'', ''reseller_id'', ''reseller_qty''],
        [''P1'', ''R1'', ''n/a''],
        [''P1'', ''R1'', ''9'']]
   \<and> length (sales (snd (pos_sale example_runtime spring sale_request shop_bad_qty))) = 1
   \<and> accesses (snd (pos_sale example_runtime spring sale_request shop_bad_qty)) =
       [ReadTab ''Users'', ReadTab ''Products'', ReadTab ''ResellerPricing'', AppendRow ''Sales'',
        ReadTab ''Stock'']"
proof -
  let ?hdr = "[''product_id'', ''reseller_id'', ''reseller_qty'']"
  let ?body = "[[''P1'', ''R1'', ''n/a''], [''P1'', ''R1'', ''9'']]"
  have h1: "py_int example_runtime (get_or sale_request ''qty'' (JInt 1)) = Inr 3"
    by (simp add: eval_defs)
  have h2: "truthy example_runtime (get_or sale_request ''product_id'' JNull)
            \<or> truthy example_runtime (get_or sale_request ''short_id'' JNull)"
    by (simp add: eval_defs)
  have h3: "lookup_product_loop example_runtime (to_dicts (tabs shop_bad_qty ''Products''))
              (get_or sale_request ''product_id'' JNull)
              (get_or sale_request ''short_id'' JNull) = p1_row"
    by (simp add: eval_defs)
  have h4: "p1_row \<noteq> []"
    by (simp add: eval_defs)
  have h5: "price_loop example_runtime (to_dicts (tabs shop_bad_qty ''ResellerPricing''))
              (get_or sale_request ''reseller_id'' (JStr []))
              (cell_val (get p1_row ''product_id'')) (today spring) [] = Inr spring_price"
    by (simp add: eval_defs)
  have h6: "resolve_price example_runtime spring_price p1_row = Inr 10"
    by (simp add: eval_defs)
  have h6': "float_of_int example_runtime 3 = Some 3"
    by (simp add: eval_defs)
  have h7: "tabs shop_bad_qty ''Stock'' = ?hdr # ?body"
    by (simp add: eval_defs)
  have h8: "index ?hdr ''product_id'' = Some 0"
    by simp
  have h9: "index ?hdr ''reseller_id'' = Some 1"
    by simp
  have h10: "index ?hdr ''reseller_qty'' = Some 2"
    by simp
  have h11: "0 < length ?body"
    by simp
  have h12: "cell_at (?body ! 0) 0 = py_str example_runtime (cell_val (get p1_row ''product_id''))
             \<and> cell_at (?body ! 0) 1 =
                 py_str example_runtime (get_or sale_request ''reseller_id'' (JStr []))"
    by (simp add: eval_defs)
  have h13: "\<forall>j<0. \<not> (cell_at (?body ! j) 0 =
                          py_str example_runtime (cell_val (get p1_row ''product_id''))
               \<and> cell_at (?body ! j) 1 =
                   py_str example_runtime (get_or sale_request ''reseller_id'' (JStr [])))"
    by simp
  have h14: "2 < length (?body ! 0)"
    by simp
  have h15: "?body ! 0 ! 2 \<noteq> []"
    by simp
  have h16: "float_of_str example_runtime (?body ! 0 ! 2) = None"
    by (simp add: eval_defs)
  have h17: "resolve_commission example_runtime spring_price = 5"
    by (simp add: eval_defs)
  have h18: "float_of_str example_runtime ''n/a'' = None"
    by (simp add: eval_defs)
  show ?thesis
    using pos_sale_unparseable_stock_qty
            [OF h1 h2 h3 h4 h5 h6 h6' h7 h8 h9 h10 h11 h12 h13 h14 h15 h16]
          h17 h18
    by (simp add: eval_defs)
qed

section \<open>Dates that do not parse\<close>

text \<open>
  C6. Two price rows of (\<^verbatim>\<open>R1\<close>, \<^verbatim>\<open>P1\<close>) are valid on 2024-03-01: the first has the
  \<^verbatim>\<open>valid_from\<close> cell \<^verbatim>\<open>soon\<close>, which lines 64-66 read as 1970-01-01, the second starts
  2024-01-01. At the second row line 71 parses \<^verbatim>\<open>soon\<close> again, this time without a guard,
  and \<^verbatim>\<open>lookup_reseller_price\<close> raises \<^verbatim>\<open>ValueError\<close>: the date that does not parse
  fails the resolution.
\<close>

theorem lookup_reseller_price_unparseable_best_raises:
  "fst (lookup_reseller_price example_runtime shop_soon (JStr ''R1'') (JStr ''P1'') (2024, 3, 1)) =
     Inl ValueError"
  by (rule unparseable_valid_from_raises) (simp_all add: eval_defs)

end
